theory Spec2Isabelle
  imports Complex_Main "HOL-Library.AList" "HOL-Library.Multiset"
begin

section \<open>JavaScript numbers\<close>

text \<open>
  A JavaScript number is an IEEE double. A double is a real that \<open>fl\<close> leaves as it is,
  where \<open>fl\<close> rounds a real to 53 significant bits, to nearest and ties to even: \<open>expo x\<close>
  is the binary exponent of a positive \<open>x\<close>, \<open>ulp x\<close> the distance of the doubles around it.
  \<^verbatim>\<open>parseFloat\<close> and \<^verbatim>\<open>JSON.parse\<close> round the decimal they read, and \<^verbatim>\<open>+\<close>, \<^verbatim>\<open>*\<close> and \<^verbatim>\<open>/\<close> round
  the exact result. The exponent is not bounded here: there is no overflow to
  \<^verbatim>\<open>Infinity\<close> and no gradual underflow, and \<^verbatim>\<open>NaN\<close> is not a value (a field that holds
  a number holds a decimal). Lengths and scores are integers, which doubles hold exactly.
\<close>

definition expo :: "real \<Rightarrow> int" where
  "expo x = (if x \<le> 0 then 0 else \<lfloor>log 2 x\<rfloor>)"

definition rne :: "real \<Rightarrow> int" where
  "rne x = (let n = \<lfloor>x\<rfloor>; r = x - of_int n in
            if r < 1/2 then n else if r > 1/2 then n + 1 else if even n then n else n + 1)"

definition ulp :: "real \<Rightarrow> real" where
  "ulp x = 2 powi (expo x - 52)"

definition fl :: "real \<Rightarrow> real" where
  "fl x = sgn x * (of_int (rne (\<bar>x\<bar> / ulp \<bar>x\<bar>)) * ulp \<bar>x\<bar>)"

definition parseFloat :: "real \<Rightarrow> real" where
  "parseFloat x = fl x"

definition fadd :: "real \<Rightarrow> real \<Rightarrow> real" where
  "fadd a b = fl (a + b)"

definition fmul :: "real \<Rightarrow> real \<Rightarrow> real" where
  "fmul a b = fl (a * b)"

definition fdiv :: "real \<Rightarrow> real \<Rightarrow> real" where
  "fdiv a b = fl (a / b)"

section \<open>Data returned by the market data client\<close>

text \<open>
  The objects of \<^verbatim>\<open>news-aggregator.js\<close> are JSON values. A field that the code reads
  through \<^verbatim>\<open>?.\<close> or guards with \<^verbatim>\<open>||\<close> may be absent or \<^verbatim>\<open>null\<close> and is an \<open>option\<close>, where
  the code treats the two alike. The ids of a market that are compared with \<^verbatim>\<open>===\<close> keep
  them apart: \<^verbatim>\<open>undefined\<close>, \<^verbatim>\<open>null\<close>, or a string. A number in a field is the decimal of
  the JSON text.
\<close>

datatype 'a jsfield = Undefined | JsNull | Defined 'a

record pos_market =
  closed :: bool
  condition_id :: "string jsfield"

record position =
  market :: "pos_market option"
  cashPnl :: "real option"

record trade =
  type :: string
  proxyWallet :: string
  conditionId :: "string jsfield"
  usdcSize :: "real option"
  side :: string
  price :: real
  outcome :: string
  timestamp :: int
  transactionHash :: string

record market_info =
  question :: string
  slug :: string
  condition_id :: string
  tags :: "string list option"

record metrics =
  winRate :: int
  avgBetSize :: int
  totalVolume :: int
  totalTrades :: nat
  recentPerformance :: int

record score_record =
  score :: int
  timestamp :: int
  metrics :: metrics

section \<open>The whale score (\<^verbatim>\<open>calculateWhaleScore\<close>, lines 539 to 587)\<close>

text \<open>
  Each local constant of the function is a definition of its own, under its name in the
  source; \<open>winRate\<close>, \<open>avgBetSize\<close>, \<open>totalVolume\<close> and \<open>recentPerformance\<close> are also fields
  of the metrics and have the suffix \<open>_of\<close> here.
\<close>

text \<open>\<^verbatim>\<open>parseFloat(t.usdcSize || 0)\<close>: an absent size counts as 0.\<close>

definition usdc :: "trade \<Rightarrow> real" where
  "usdc t = (case usdcSize t of None \<Rightarrow> 0 | Some v \<Rightarrow> parseFloat v)"

text \<open>\<^verbatim>\<open>p.cashPnl && parseFloat(p.cashPnl) > 0\<close>.\<close>

definition winning :: "position \<Rightarrow> bool" where
  "winning p = (case cashPnl p of None \<Rightarrow> False | Some v \<Rightarrow> v \<noteq> 0 \<and> parseFloat v > 0)"

text \<open>\<^verbatim>\<open>positions?.filter(p => p.market?.closed) || []\<close>.\<close>

definition resolvedPositions :: "position list option \<Rightarrow> position list" where
  "resolvedPositions positions =
     (case positions of
        None \<Rightarrow> []
      | Some ps \<Rightarrow>
          filter (\<lambda>p. case position.market p of None \<Rightarrow> False | Some m \<Rightarrow> pos_market.closed m) ps)"

definition winningPositions :: "position list option \<Rightarrow> position list" where
  "winningPositions positions = filter winning (resolvedPositions positions)"

definition winRate_of :: "position list option \<Rightarrow> real" where
  "winRate_of positions =
     (if length (resolvedPositions positions) > 0
      then fmul (fdiv (real (length (winningPositions positions)))
                      (real (length (resolvedPositions positions)))) 100
      else 50)"

definition totalVolume_of :: "trade list \<Rightarrow> real" where
  "totalVolume_of trades = foldl (\<lambda>sum t. fadd sum (usdc t)) 0 trades"

definition avgBetSize_of :: "trade list \<Rightarrow> real" where
  "avgBetSize_of trades = fdiv (totalVolume_of trades) (real (length trades))"

definition betSizeScore :: "trade list \<Rightarrow> real" where
  "betSizeScore trades = min 100 (fmul (fdiv (avgBetSize_of trades) 20000) 100)"

definition volumeScore :: "trade list \<Rightarrow> real" where
  "volumeScore trades = min 100 (fmul (fdiv (totalVolume_of trades) 500000) 100)"

definition frequencyScore :: "trade list \<Rightarrow> real" where
  "frequencyScore trades = min 100 (fmul (fdiv (real (length trades)) 50) 100)"

text \<open>
  \<^verbatim>\<open>p.market?.condition_id === trade.conditionId\<close>: a position without a market gives
  \<^verbatim>\<open>undefined\<close>, which is equal to \<^verbatim>\<open>undefined\<close> only, as \<^verbatim>\<open>null\<close> is to \<^verbatim>\<open>null\<close>.
\<close>

definition marketPositions :: "position list option \<Rightarrow> trade \<Rightarrow> position list" where
  "marketPositions positions trade =
     (case positions of
        None \<Rightarrow> []
      | Some ps \<Rightarrow>
          filter (\<lambda>p. (case position.market p of
                          None \<Rightarrow> Undefined
                        | Some m \<Rightarrow> pos_market.condition_id m) = conditionId trade) ps)"

text \<open>
  \<^verbatim>\<open>recentTrades.map(trade => marketPositions[0])\<close>: one entry for each of the first ten
  trades, \<^verbatim>\<open>undefined\<close> (here \<open>None\<close>) where no position matches.
\<close>

definition recentPositions :: "trade list \<Rightarrow> position list option \<Rightarrow> position option list" where
  "recentPositions trades positions =
     map (\<lambda>trade. case marketPositions positions trade of [] \<Rightarrow> None | p # _ \<Rightarrow> Some p)
       (take 10 trades)"

definition recentWins :: "trade list \<Rightarrow> position list option \<Rightarrow> nat" where
  "recentWins trades positions =
     length (filter (\<lambda>p. case p of None \<Rightarrow> False | Some q \<Rightarrow> winning q)
       (recentPositions trades positions))"

definition recentPerformance_of :: "trade list \<Rightarrow> position list option \<Rightarrow> real" where
  "recentPerformance_of trades positions =
     (if length (recentPositions trades positions) > 0
      then fmul (fdiv (real (recentWins trades positions))
                      (real (length (recentPositions trades positions)))) 100
      else 50)"

text \<open>
  The weighted sum, added from the left, with the doubles next to 0.4, 0.2 and 0.1 as
  weights; and \<^verbatim>\<open>Math.round\<close>, which gives the exact \<open>\<lfloor>x + 1/2\<rfloor>\<close> of a double \<open>x\<close>, as
  \<^const>\<open>round\<close> does.
\<close>

definition weighted :: "real \<Rightarrow> real \<Rightarrow> real \<Rightarrow> real \<Rightarrow> real \<Rightarrow> real" where
  "weighted wr bs vs fs rp =
     fadd (fadd (fadd (fadd (fmul wr (fl 0.4)) (fmul bs (fl 0.2))) (fmul vs (fl 0.2)))
       (fmul fs (fl 0.1))) (fmul rp (fl 0.1))"

definition weightedSum :: "trade list \<Rightarrow> position list option \<Rightarrow> real" where
  "weightedSum trades positions =
     weighted (winRate_of positions) (betSizeScore trades) (volumeScore trades)
       (frequencyScore trades) (recentPerformance_of trades positions)"

definition whaleScore_of :: "trade list \<Rightarrow> position list option \<Rightarrow> int" where
  "whaleScore_of trades positions = round (weightedSum trades positions)"

definition metrics_of :: "trade list \<Rightarrow> position list option \<Rightarrow> metrics" where
  "metrics_of trades positions =
     \<lparr> winRate = round (winRate_of positions),
       avgBetSize = round (avgBetSize_of trades),
       totalVolume = round (totalVolume_of trades),
       totalTrades = length trades,
       recentPerformance = round (recentPerformance_of trades positions) \<rparr>"

section \<open>The data client and the score cache\<close>

text \<open>
  The data client is outside the program: what a fetch returns, and what \<^verbatim>\<open>Date.now()\<close>
  returns, is given by a \<open>world\<close>, indexed by the number of the observation, so that two
  fetches of one URL may differ. \<open>None\<close> is the \<^verbatim>\<open>null\<close> that \<^verbatim>\<open>fetchWithCache\<close> returns on
  a transport failure.
\<close>

record world =
  now_at :: "nat \<Rightarrow> int"
  markets_at :: "nat \<Rightarrow> string option \<Rightarrow> nat \<Rightarrow> market_info list option"
  activity_at :: "nat \<Rightarrow> string \<Rightarrow> trade list option"
  history_at :: "nat \<Rightarrow> string \<Rightarrow> trade list option"
  positions_at :: "nat \<Rightarrow> string \<Rightarrow> position list option"

record api_state =
  tick :: nat
  whaleScores :: "string \<rightharpoonup> score_record"

text \<open>
  The cache test at the head of \<^verbatim>\<open>calculateWhaleScore\<close>: the stored score when the wallet
  has a record younger than 300000 ms.
\<close>

definition cachedScore :: "world \<Rightarrow> string \<Rightarrow> api_state \<Rightarrow> int option" where
  "cachedScore w walletAddress s =
     (case whaleScores s walletAddress of
        None \<Rightarrow> None
      | Some cached \<Rightarrow>
          if now_at w (tick s) - score_record.timestamp cached < 300000
          then Some (score cached) else None)"

text \<open>
  One call uses four observations: the clock of the cache test, the history, the
  positions, and the clock of the new record.
\<close>

definition calculateWhaleScore :: "world \<Rightarrow> string \<Rightarrow> api_state \<Rightarrow> int \<times> api_state" where
  "calculateWhaleScore w walletAddress s =
     (let s' = s\<lparr>tick := tick s + 4\<rparr> in
      case cachedScore w walletAddress s of
        Some sc \<Rightarrow> (sc, s')
      | None \<Rightarrow>
         (case history_at w (tick s + 1) walletAddress of
            None \<Rightarrow> (0, s')
          | Some history \<Rightarrow>
              if length history = 0 then (0, s')
              else
                let trades = filter (\<lambda>t. type t = ''TRADE'') history in
                if length trades = 0 then (0, s')
                else
                  let positions = positions_at w (tick s + 2) walletAddress;
                      sc = whaleScore_of trades positions
                  in (sc, s'\<lparr>whaleScores := (whaleScores s)(walletAddress \<mapsto>
                        \<lparr> score = sc,
                          score_record.timestamp = now_at w (tick s + 3),
                          score_record.metrics = metrics_of trades positions \<rparr>)\<rparr>)))"

section \<open>The whale scanner (\<^verbatim>\<open>scanWhaleActivity\<close>)\<close>

record whale_event =
  market :: string
  marketSlug :: string
  conditionId :: string
  category :: string
  wallet :: string
  betSize :: real
  side :: string
  price :: real
  outcome :: string
  timestamp :: int
  whaleScore :: int
  metrics :: metrics
  transactionHash :: string

text \<open>
  Reading \<^verbatim>\<open>scoreData.metrics\<close> when the cache has no record of the wallet throws a
  \<^verbatim>\<open>TypeError\<close>; \<^verbatim>\<open>scanTracker\<close> throws an \<^verbatim>\<open>Error\<close> of its own when it has no API object.
\<close>

datatype error = TypeError | ApiNotInitialized

text \<open>
  The argument \<^verbatim>\<open>categories\<close>: \<^verbatim>\<open>null\<close>, one tag id, an array of tag ids, or a value that
  is none of these and not falsy (\<open>NoTags\<close>: an object or a function), for which no
  branch fetches a market.
\<close>

datatype categories_arg = Null | Tag string | Tags "string list" | NoTags

definition MIN_WHALE_BET :: real where
  "MIN_WHALE_BET = 5000"

text \<open>
  \<^verbatim>\<open>getMarketsByCategory\<close>: an empty tag id is falsy and asks for all markets; a failed
  fetch gives the empty list (\<^verbatim>\<open>markets || []\<close>).
\<close>

definition getMarketsByCategory ::
    "world \<Rightarrow> string option \<Rightarrow> nat \<Rightarrow> api_state \<Rightarrow> market_info list \<times> api_state" where
  "getMarketsByCategory w tagId limit s =
     (let tag = (case tagId of None \<Rightarrow> None | Some t \<Rightarrow> if t = [] then None else Some t) in
      (case markets_at w (tick s) tag limit of None \<Rightarrow> [] | Some ms \<Rightarrow> ms,
       s\<lparr>tick := tick s + 1\<rparr>))"

fun marketsOfTags ::
    "world \<Rightarrow> string list \<Rightarrow> api_state \<Rightarrow> market_info list \<times> api_state" where
  "marketsOfTags w [] s = ([], s)"
| "marketsOfTags w (tagId # rest) s =
     (let (ms, s1) = getMarketsByCategory w (Some tagId) 50 s;
          (ms', s2) = marketsOfTags w rest s1
      in (ms @ ms', s2))"

definition allMarkets ::
    "world \<Rightarrow> categories_arg \<Rightarrow> api_state \<Rightarrow> market_info list \<times> api_state" where
  "allMarkets w categories s =
     (case categories of
        Null \<Rightarrow> getMarketsByCategory w None 100 s
      | Tag t \<Rightarrow> if t = [] then getMarketsByCategory w None 100 s
                 else getMarketsByCategory w (Some t) 50 s
      | Tags ts \<Rightarrow> marketsOfTags w ts s
      | NoTags \<Rightarrow> ([], s))"

text \<open>\<^verbatim>\<open>market.tags?.[0] || 'Other'\<close>.\<close>

definition firstTag :: "market_info \<Rightarrow> string" where
  "firstTag m =
     (case tags m of
        None \<Rightarrow> ''Other''
      | Some [] \<Rightarrow> ''Other''
      | Some (t # _) \<Rightarrow> if t = [] then ''Other'' else t)"

text \<open>
  The event pushed for a bet. \<^verbatim>\<open>parseFloat(bet.usdcSize)\<close> is read only for a bet that
  passed the size filter, whose \<^verbatim>\<open>usdcSize\<close> is present and not 0, so it is \<open>usdc bet\<close>.
\<close>

definition whaleEvent :: "market_info \<Rightarrow> trade \<Rightarrow> int \<Rightarrow> score_record \<Rightarrow> whale_event" where
  "whaleEvent m bet sc scoreData =
     \<lparr> market = question m,
       marketSlug = slug m,
       conditionId = market_info.condition_id m,
       category = firstTag m,
       wallet = proxyWallet bet,
       betSize = usdc bet,
       side = trade.side bet,
       price = parseFloat (trade.price bet),
       outcome = trade.outcome bet,
       timestamp = trade.timestamp bet,
       whaleScore = sc,
       metrics = score_record.metrics scoreData,
       transactionHash = trade.transactionHash bet \<rparr>"

text \<open>
  The loop over \<^verbatim>\<open>whaleBets\<close> of one market. The events found so far are the accumulator;
  a \<^verbatim>\<open>TypeError\<close> ends the scan and loses them, the API state stays as it is then.
\<close>

fun scanBets ::
    "world \<Rightarrow> int \<Rightarrow> market_info \<Rightarrow> trade list \<Rightarrow> whale_event list \<Rightarrow> api_state
      \<Rightarrow> (error + whale_event list) \<times> api_state" where
  "scanBets w minScore m [] whaleActivity s = (Inr whaleActivity, s)"
| "scanBets w minScore m (bet # bets) whaleActivity s =
     (let (sc, s1) = calculateWhaleScore w (proxyWallet bet) s in
      if sc \<ge> minScore then
        (case whaleScores s1 (proxyWallet bet) of
           None \<Rightarrow> (Inl TypeError, s1)
         | Some scoreData \<Rightarrow>
             scanBets w minScore m bets (whaleActivity @ [whaleEvent m bet sc scoreData]) s1)
      else scanBets w minScore m bets whaleActivity s1)"

definition whaleBets :: "trade list \<Rightarrow> trade list" where
  "whaleBets activity = filter (\<lambda>trade. usdc trade \<ge> MIN_WHALE_BET) activity"

text \<open>The loop over \<^verbatim>\<open>batchResults\<close>: a market without activity is skipped.\<close>

fun scanResults ::
    "world \<Rightarrow> int \<Rightarrow> (market_info \<times> trade list option) list \<Rightarrow> whale_event list \<Rightarrow> api_state
      \<Rightarrow> (error + whale_event list) \<times> api_state" where
  "scanResults w minScore [] whaleActivity s = (Inr whaleActivity, s)"
| "scanResults w minScore ((m, activity) # rest) whaleActivity s =
     (case activity of
        None \<Rightarrow> scanResults w minScore rest whaleActivity s
      | Some act \<Rightarrow>
          (case scanBets w minScore m (whaleBets act) whaleActivity s of
             (Inl e, s1) \<Rightarrow> (Inl e, s1)
           | (Inr whaleActivity', s1) \<Rightarrow> scanResults w minScore rest whaleActivity' s1))"

text \<open>The activity of the markets of one batch is fetched before any of it is processed.\<close>

fun fetchBatch ::
    "world \<Rightarrow> market_info list \<Rightarrow> api_state
      \<Rightarrow> (market_info \<times> trade list option) list \<times> api_state" where
  "fetchBatch w [] s = ([], s)"
| "fetchBatch w (m # ms) s =
     (let activity = activity_at w (tick s) (market_info.condition_id m);
          (rest, s1) = fetchBatch w ms (s\<lparr>tick := tick s + 1\<rparr>)
      in ((m, activity) # rest, s1))"

definition BATCH_SIZE :: nat where
  "BATCH_SIZE = 10"

function scanBatches ::
    "world \<Rightarrow> int \<Rightarrow> market_info list \<Rightarrow> whale_event list \<Rightarrow> api_state
      \<Rightarrow> (error + whale_event list) \<times> api_state" where
  "scanBatches w minScore ms whaleActivity s =
     (if ms = [] then (Inr whaleActivity, s)
      else
        let (batchResults, s1) = fetchBatch w (take BATCH_SIZE ms) s in
        case scanResults w minScore batchResults whaleActivity s1 of
          (Inl e, s2) \<Rightarrow> (Inl e, s2)
        | (Inr whaleActivity', s2) \<Rightarrow>
            scanBatches w minScore (drop BATCH_SIZE ms) whaleActivity' s2)"
  by pat_completeness auto
termination
  by (relation "measure (\<lambda>(w, minScore, ms, whaleActivity, s). length ms)")
     (auto simp: BATCH_SIZE_def)

declare scanBatches.simps [simp del]

text \<open>
  \<^verbatim>\<open>Array.prototype.sort\<close> with a comparator is stable: for a comparator that is a
  consistent ordering its result is the one that insertion from the right gives.
\<close>

fun insort_cmp :: "('a \<Rightarrow> 'a \<Rightarrow> int) \<Rightarrow> 'a \<Rightarrow> 'a list \<Rightarrow> 'a list" where
  "insort_cmp cmp x [] = [x]"
| "insort_cmp cmp x (y # ys) =
     (if cmp x y \<le> 0 then x # y # ys else y # insort_cmp cmp x ys)"

definition sort_cmp :: "('a \<Rightarrow> 'a \<Rightarrow> int) \<Rightarrow> 'a list \<Rightarrow> 'a list" where
  "sort_cmp cmp xs = foldr (insort_cmp cmp) xs []"

definition byScore :: "whale_event \<Rightarrow> whale_event \<Rightarrow> int" where
  "byScore a b = whaleScore b - whaleScore a"

definition scanWhaleActivity ::
    "world \<Rightarrow> categories_arg \<Rightarrow> int \<Rightarrow> api_state \<Rightarrow> (error + whale_event list) \<times> api_state" where
  "scanWhaleActivity w categories minScore s =
     (let (ms, s1) = allMarkets w categories s in
      case scanBatches w minScore ms [] s1 of
        (Inl e, s2) \<Rightarrow> (Inl e, s2)
      | (Inr whaleActivity, s2) \<Rightarrow> (Inr (sort_cmp byScore whaleActivity), s2))"

section \<open>The tracker system (\<^verbatim>\<open>polymarket-trackers.js\<close>)\<close>

text \<open>
  \<^verbatim>\<open>TRACKER_CATEGORIES[category]\<close>: \<^verbatim>\<open>null\<close> for the six categories of the table; for a
  name that the object inherits from \<^verbatim>\<open>Object.prototype\<close> a function or an object
  (\<open>IdInherited\<close>); \<^verbatim>\<open>undefined\<close> for any other key.
\<close>

datatype category_id = IdNull | IdUndefined | IdInherited

definition categoryNames :: "string list" where
  "categoryNames =
     [''politics'', ''crypto'', ''popculture'', ''sports'', ''business'', ''science'']"

definition objectPrototypeNames :: "string list" where
  "objectPrototypeNames =
     [''constructor'', ''__defineGetter__'', ''__defineSetter__'', ''hasOwnProperty'',
      ''__lookupGetter__'', ''__lookupSetter__'', ''isPrototypeOf'', ''propertyIsEnumerable'',
      ''toString'', ''valueOf'', ''__proto__'', ''toLocaleString'']"

definition TRACKER_CATEGORIES :: "string \<Rightarrow> category_id" where
  "TRACKER_CATEGORIES cat =
     (if cat \<in> set categoryNames then IdNull
      else if cat \<in> set objectPrototypeNames then IdInherited
      else IdUndefined)"

text \<open>
  \<^verbatim>\<open>CATEGORY_KEYWORDS[category]\<close> is read only when the category's id is \<^verbatim>\<open>null\<close>, so for
  one of the six categories.
\<close>

definition CATEGORY_KEYWORDS :: "string \<Rightarrow> string list option" where
  "CATEGORY_KEYWORDS cat =
     (if cat = ''politics'' then
        Some [''trump'', ''biden'', ''election'', ''president'', ''congress'', ''senate'',
              ''house'', ''government'', ''policy'', ''vote'', ''republican'', ''democrat'',
              ''political'', ''minister'', ''prime minister'', ''war'', ''military'']
      else if cat = ''crypto'' then
        Some [''bitcoin'', ''ethereum'', ''crypto'', ''btc'', ''eth'', ''blockchain'', ''defi'',
              ''nft'', ''token'', ''coin'', ''solana'', ''binance'', ''coinbase'']
      else if cat = ''popculture'' then
        Some [''movie'', ''film'', ''music'', ''artist'', ''celebrity'', ''award'', ''oscar'',
              ''grammy'', ''netflix'', ''spotify'', ''album'', ''box office'', ''actor'',
              ''actress'', ''director'']
      else if cat = ''sports'' then
        Some [''nfl'', ''nba'', ''mlb'', ''nhl'', ''soccer'', ''football'', ''basketball'',
              ''baseball'', ''hockey'', ''championship'', ''super bowl'', ''world cup'',
              ''olympics'', ''team'', ''player'', ''game'']
      else if cat = ''business'' then
        Some [''stock'', ''market'', ''company'', ''ceo'', ''revenue'', ''profit'', ''earnings'',
              ''ipo'', ''acquisition'', ''merger'', ''valuation'', ''nasdaq'', ''dow'', ''sp500'',
              ''business'', ''corporate'']
      else if cat = ''science'' then
        Some [''science'', ''technology'', ''ai'', ''artificial intelligence'', ''research'',
              ''space'', ''nasa'', ''climate'', ''vaccine'', ''medical'', ''health'',
              ''innovation'', ''discovery'', ''tech company'']
      else None)"

text \<open>\<^verbatim>\<open>toLowerCase\<close> on the ASCII letters, and \<^verbatim>\<open>String.prototype.includes\<close>.\<close>

definition toLowerCase :: "string \<Rightarrow> string" where
  "toLowerCase str =
     map (\<lambda>c. let n = (of_char c :: nat) in
               if 65 \<le> n \<and> n \<le> 90 then char_of (n + 32) else c) str"

fun str_includes :: "string \<Rightarrow> string \<Rightarrow> bool" where
  "str_includes [] keyword = (keyword = [])"
| "str_includes (c # cs) keyword =
     (take (length keyword) (c # cs) = keyword \<or> str_includes cs keyword)"

definition keywordFilter :: "string list \<Rightarrow> whale_event list \<Rightarrow> whale_event list" where
  "keywordFilter keywords whales =
     filter (\<lambda>whale. list_ex (\<lambda>keyword. str_includes (toLowerCase (market whale))
                                          (toLowerCase keyword)) keywords) whales"

subsection \<open>The page and the browser\<close>

text \<open>
  The tracker writes into elements of the page, each behind a test that the element
  exists. The page is what was last written into each element: the events rendered in a
  panel, the numbers shown, the log entries (kind and message, without the time of day
  shown beside them). \<open>present\<close> says which elements the page has.
\<close>

datatype element =
    WhalesContainer string
  | StatCount string
  | StatScore string
  | StatVolume string
  | TrackerPanel string
  | ToggleButton string
  | LogItems
  | WhaleAlertsContainer
  | WhaleAlertCount

datatype log_type = LogInfo | LogWhale | LogSuccess | LogError

datatype log_message =
    Started string
  | Stopped string
  | HighScoreWhales nat string
  | AutoCopying string int
  | ErrorScanning string error

record stats =
  count :: nat
  avgScore :: int
  volume :: real

record dom =
  present :: "element \<Rightarrow> bool"
  whalesHtml :: "string \<rightharpoonup> whale_event list"
  countText :: "string \<rightharpoonup> nat"
  scoreText :: "string \<rightharpoonup> int option"
  volumeText :: "string \<rightharpoonup> int option"
  activeClass :: "string \<rightharpoonup> bool"
  logItems :: "(log_type \<times> log_message) list"
  whaleAlertCount :: nat
  whaleAlerts :: "whale_event list"

text \<open>
  The item \<^verbatim>\<open>polymarket_tracker_state\<close> of \<^verbatim>\<open>localStorage\<close>: absent, a text that
  \<^verbatim>\<open>loadState\<close> cannot read (its \<^verbatim>\<open>try\<close> block throws), or an object whose fields may be
  missing.
\<close>

record saved_state =
  minScore :: "int option"
  autoTrade :: "bool option"
  activeCategories :: "string list option"
  lastUpdate :: "int option"

datatype stored_item = NoItem | Unreadable | Item saved_state

text \<open>
  The tracker object with the parts of the browser it changes: the stored item,
  the running \<^verbatim>\<open>setInterval\<close> timers (id and the category each one scans), and the page.
  The three \<^verbatim>\<open>Map\<close>s keep insertion order, as association lists.
\<close>

record tracker =
  api :: "api_state option"
  monitors :: "(string \<times> nat) list"
  whaleData :: "(string \<times> whale_event list) list"
  lastScan :: "(string \<times> int) list"
  minScore :: int
  autoTrade :: bool
  activeCategories :: "string list option"
  storageAvailable :: bool
  localStorage :: stored_item
  intervals :: "(nat \<times> string) list"
  nextIntervalId :: nat
  resumeScheduled :: bool
  page :: dom

definition has :: "('k \<times> 'v) list \<Rightarrow> 'k \<Rightarrow> bool" where
  "has m k = (map_of m k \<noteq> None)"

subsection \<open>Writing to the page\<close>

definition logActivity :: "log_message \<Rightarrow> log_type \<Rightarrow> tracker \<Rightarrow> tracker" where
  "logActivity message ty s =
     (if \<not> present (page s) LogItems then s
      else s\<lparr>page := (page s)\<lparr>logItems := take 20 ((ty, message) # logItems (page s))\<rparr>\<rparr>)"

definition renderTrackerWhales :: "string \<Rightarrow> whale_event list \<Rightarrow> tracker \<Rightarrow> tracker" where
  "renderTrackerWhales cat whales s =
     (if \<not> present (page s) (WhalesContainer cat) then s
      else if length whales = 0
      then s\<lparr>page := (page s)\<lparr>whalesHtml := (whalesHtml (page s))(cat \<mapsto> [])\<rparr>\<rparr>
      else s\<lparr>page := (page s)\<lparr>whalesHtml :=
                (whalesHtml (page s))(cat \<mapsto> take 5 whales)\<rparr>\<rparr>)"

definition calculateStats :: "whale_event list \<Rightarrow> stats" where
  "calculateStats whales =
     (if length whales = 0 then \<lparr> count = 0, avgScore = 0, volume = 0 \<rparr>
      else
        let totalScore = foldl (\<lambda>sum w. sum + whaleScore w) 0 whales;
            totalVolume = foldl (\<lambda>sum w. fadd sum (betSize w)) 0 whales
        in \<lparr> count = length whales,
             avgScore = round (fdiv (real_of_int totalScore) (real (length whales))),
             volume = totalVolume \<rparr>)"

text \<open>
  \<^verbatim>\<open>updateTrackerStats\<close>: the score shows \<^verbatim>\<open>'--'\<close> (here \<open>None\<close>) for 0, the volume shows
  \<^verbatim>\<open>'$0'\<close> (\<open>None\<close>) unless positive, else the thousands to no decimal place.
\<close>

definition updateTrackerStats :: "string \<Rightarrow> stats \<Rightarrow> tracker \<Rightarrow> tracker" where
  "updateTrackerStats cat st s =
     (let p0 = page s;
          p1 = (if present p0 (StatCount cat)
                then p0\<lparr>countText := (countText p0)(cat \<mapsto> count st)\<rparr> else p0);
          p2 = (if present p0 (StatScore cat)
                then p1\<lparr>scoreText := (scoreText p1)(cat \<mapsto>
                        (if avgScore st = 0 then None else Some (avgScore st)))\<rparr> else p1);
          p3 = (if present p0 (StatVolume cat)
                then p2\<lparr>volumeText := (volumeText p2)(cat \<mapsto>
                        (if volume st > 0 then Some (round (fdiv (volume st) 1000))
                         else None))\<rparr>
                else p2)
      in s\<lparr>page := p3\<rparr>)"

definition updateTrackerUI :: "string \<Rightarrow> bool \<Rightarrow> tracker \<Rightarrow> tracker" where
  "updateTrackerUI cat isActive s =
     (if \<not> present (page s) (TrackerPanel cat) \<or> \<not> present (page s) (ToggleButton cat)
      then s
      else s\<lparr>page := (page s)\<lparr>activeClass := (activeClass (page s))(cat \<mapsto> isActive)\<rparr>\<rparr>)"

definition formatWallet :: "string \<Rightarrow> string" where
  "formatWallet address =
     (if address = [] then []
      else take 6 address @ ''...'' @ drop (length address - 4) address)"

text \<open>
  \<^verbatim>\<open>updateWhaleAlertFeed\<close>: the events of every entry of \<^verbatim>\<open>whaleData\<close>, each with its
  entry's key as category, sorted by the comparator and cut to 20 for the panel.
\<close>

definition byScoreThenTime :: "whale_event \<Rightarrow> whale_event \<Rightarrow> int" where
  "byScoreThenTime a b =
     (if whaleScore b \<noteq> whaleScore a then whaleScore b - whaleScore a
      else whale_event.timestamp b - whale_event.timestamp a)"

definition allWhales :: "(string \<times> whale_event list) list \<Rightarrow> whale_event list" where
  "allWhales wd =
     concat (map (\<lambda>(cat, categoryWhales).
                    map (\<lambda>whale. whale\<lparr>category := cat\<rparr>) categoryWhales) wd)"

definition updateWhaleAlertFeed :: "string \<Rightarrow> whale_event list \<Rightarrow> tracker \<Rightarrow> tracker" where
  "updateWhaleAlertFeed cat whales s =
     (if \<not> present (page s) WhaleAlertsContainer \<or> \<not> present (page s) WhaleAlertCount then s
      else
        let sorted = sort_cmp byScoreThenTime (allWhales (whaleData s)) in
        s\<lparr>page := (page s)\<lparr>whaleAlertCount := length sorted,
                             whaleAlerts := (if length sorted = 0 then []
                                             else take 20 sorted)\<rparr>\<rparr>)"

subsection \<open>The persisted state\<close>

definition saveState :: "int \<Rightarrow> tracker \<Rightarrow> tracker" where
  "saveState now s =
     (if \<not> storageAvailable s then s
      else s\<lparr>localStorage := Item
               \<lparr> saved_state.minScore = Some (minScore s),
                 saved_state.autoTrade = Some (autoTrade s),
                 saved_state.activeCategories = Some (map fst (monitors s)),
                 lastUpdate = Some now \<rparr>\<rparr>)"

text \<open>\<^verbatim>\<open>state.minScore || 75\<close>: a missing value and 0 both give 75.\<close>

definition loadState :: "tracker \<Rightarrow> tracker" where
  "loadState s =
     (if \<not> storageAvailable s then s
      else case localStorage s of
        NoItem \<Rightarrow> s
      | Unreadable \<Rightarrow> s
      | Item state \<Rightarrow>
          s\<lparr>minScore := (case saved_state.minScore state of
                           None \<Rightarrow> 75 | Some v \<Rightarrow> if v = 0 then 75 else v),
            autoTrade := (case saved_state.autoTrade state of
                            None \<Rightarrow> False | Some b \<Rightarrow> b),
            activeCategories := Some (case saved_state.activeCategories state of
                                        None \<Rightarrow> [] | Some cs \<Rightarrow> cs)\<rparr>)"

definition autoResumeMonitors :: "tracker \<Rightarrow> tracker" where
  "autoResumeMonitors s =
     (case activeCategories s of
        None \<Rightarrow> s
      | Some cs \<Rightarrow> if length cs > 0 then s\<lparr>resumeScheduled := True\<rparr> else s)"

text \<open>
  The constructor, in a browser with the given stored item and page.
  \<^verbatim>\<open>autoResumeMonitors\<close> only sets the timeout after which the stored categories are
  started again, one \<^verbatim>\<open>startTracker\<close> after the other.
\<close>

definition constructor :: "api_state option \<Rightarrow> bool \<Rightarrow> stored_item \<Rightarrow> dom \<Rightarrow> tracker" where
  "constructor a available item pg =
     autoResumeMonitors (loadState
       \<lparr> api = a, monitors = [], whaleData = [], lastScan = [],
         minScore = 75, autoTrade = False, activeCategories = None,
         storageAvailable = available, localStorage = item,
         intervals = [], nextIntervalId = 1, resumeScheduled = False, page = pg \<rparr>)"

subsection \<open>Scanning, starting and stopping\<close>

text \<open>
  \<^verbatim>\<open>scanTracker\<close> runs to its \<^verbatim>\<open>await\<close>, and the rest runs when the scan of the API has
  returned; other calls can run in between. \<open>scanTracker_begin\<close> is the first part: the
  throttle, the new \<^verbatim>\<open>lastScan\<close>, and the call of the API, whose result is handed to the
  second part, \<open>scanTracker_finish\<close>. A call that is throttled, or finds no API object
  (the error is caught and logged), has no second part.
\<close>

text \<open>
  The id as argument of \<^verbatim>\<open>scanWhaleActivity\<close>: for \<^verbatim>\<open>undefined\<close> the default \<^verbatim>\<open>null\<close> of the
  parameter applies.
\<close>

definition categoriesArg :: "category_id \<Rightarrow> categories_arg" where
  "categoriesArg categoryId =
     (case categoryId of IdNull \<Rightarrow> Null | IdUndefined \<Rightarrow> Null | IdInherited \<Rightarrow> NoTags)"

definition scanTracker_begin ::
    "world \<Rightarrow> int \<Rightarrow> string \<Rightarrow> tracker
      \<Rightarrow> (category_id \<times> (error + whale_event list)) option \<times> tracker" where
  "scanTracker_begin w now cat s =
     (let lastScan' = (case map_of (lastScan s) cat of None \<Rightarrow> 0 | Some t \<Rightarrow> t) in
      if now - lastScan' < 5000 then (None, s)
      else
        let s1 = s\<lparr>lastScan := AList.update cat now (lastScan s)\<rparr>;
            categoryId = TRACKER_CATEGORIES cat
        in case api s1 of
             None \<Rightarrow> (None, logActivity (ErrorScanning cat ApiNotInitialized) LogError s1)
           | Some a \<Rightarrow>
               let (result, a') = scanWhaleActivity w (categoriesArg categoryId) (minScore s1) a
               in (Some (categoryId, result), s1\<lparr>api := Some a'\<rparr>))"

text \<open>
  The filter by keywords after the scan: only when the category's id is \<^verbatim>\<open>null\<close> and the
  category has keywords.
\<close>

definition filterByKeywords ::
    "string \<Rightarrow> category_id \<Rightarrow> whale_event list \<Rightarrow> whale_event list" where
  "filterByKeywords cat categoryId found =
     (if categoryId = IdNull
      then (case CATEGORY_KEYWORDS cat of
              None \<Rightarrow> found
            | Some keywords \<Rightarrow> keywordFilter keywords found)
      else found)"

definition scanTracker_finish ::
    "string \<Rightarrow> category_id \<times> (error + whale_event list) \<Rightarrow> tracker \<Rightarrow> tracker" where
  "scanTracker_finish cat pending s =
     (case snd pending of
        Inl e \<Rightarrow> logActivity (ErrorScanning cat e) LogError s
      | Inr found \<Rightarrow>
          let whales = filterByKeywords cat (fst pending) found;
              s1 = s\<lparr>whaleData := AList.update cat whales (whaleData s)\<rparr>;
              st = calculateStats whales;
              s2 = renderTrackerWhales cat whales s1;
              s3 = updateTrackerStats cat st s2;
              s4 = updateWhaleAlertFeed cat whales s3;
              highScoreWhales = filter (\<lambda>w. whaleScore w \<ge> 85) whales
          in if length highScoreWhales > 0 then
               let s5 = logActivity (HighScoreWhales (length highScoreWhales) cat)
                          LogWhale s4
               in if autoTrade s5
                  then fold (\<lambda>whale. logActivity
                               (AutoCopying (formatWallet (wallet whale)) (whaleScore whale))
                               LogSuccess) highScoreWhales s5
                  else s5
             else s4)"

text \<open>A scan that nothing interrupts.\<close>

definition scanTracker :: "world \<Rightarrow> int \<Rightarrow> string \<Rightarrow> tracker \<Rightarrow> tracker" where
  "scanTracker w now cat s =
     (case scanTracker_begin w now cat s of
        (None, s1) \<Rightarrow> s1
      | (Some pending, s1) \<Rightarrow> scanTracker_finish cat pending s1)"

text \<open>
  \<^verbatim>\<open>startTracker\<close>, with \<open>now\<close> the clock of its scan and \<open>nowSave\<close> the clock of
  \<^verbatim>\<open>saveState\<close>; \<^verbatim>\<open>setInterval\<close> gives the next timer id. \<open>startTracker_finish\<close> is the
  part after the awaited scan: the timer, the entry in \<^verbatim>\<open>monitors\<close>, the button and the
  saved state.
\<close>

definition startTracker_finish :: "int \<Rightarrow> string \<Rightarrow> tracker \<Rightarrow> tracker" where
  "startTracker_finish nowSave cat s2 =
     (let intervalId = nextIntervalId s2;
          s3 = s2\<lparr>intervals := intervals s2 @ [(intervalId, cat)],
                  nextIntervalId := intervalId + 1\<rparr>;
          s4 = s3\<lparr>monitors := AList.update cat intervalId (monitors s3)\<rparr>;
          s5 = updateTrackerUI cat True s4
      in saveState nowSave s5)"

definition startTracker :: "world \<Rightarrow> int \<Rightarrow> int \<Rightarrow> string \<Rightarrow> tracker \<Rightarrow> tracker" where
  "startTracker w now nowSave cat s =
     (if has (monitors s) cat then s
      else
        let s1 = logActivity (Started cat) LogInfo s;
            s2 = scanTracker w now cat s1
        in startTracker_finish nowSave cat s2)"

definition stopTracker :: "int \<Rightarrow> string \<Rightarrow> tracker \<Rightarrow> tracker" where
  "stopTracker nowSave cat s =
     (case map_of (monitors s) cat of
        None \<Rightarrow> s
      | Some intervalId \<Rightarrow>
          let s1 = s\<lparr>intervals := filter (\<lambda>(i, c). i \<noteq> intervalId) (intervals s)\<rparr>;
              s2 = s1\<lparr>monitors := AList.delete cat (monitors s1)\<rparr>;
              s3 = s2\<lparr>whaleData := AList.delete cat (whaleData s2)\<rparr>;
              s4 = logActivity (Stopped cat) LogInfo s3;
              s5 = updateTrackerUI cat False s4;
              s6 = renderTrackerWhales cat [] s5;
              s7 = updateTrackerStats cat \<lparr> count = 0, avgScore = 0, volume = 0 \<rparr> s6
          in saveState nowSave s7)"

text \<open>A timer set by \<^verbatim>\<open>startTracker\<close> fires: the scan of its category.\<close>

definition intervalFires :: "world \<Rightarrow> int \<Rightarrow> nat \<Rightarrow> tracker \<Rightarrow> tracker" where
  "intervalFires w now intervalId s =
     (case map_of (intervals s) intervalId of
        None \<Rightarrow> s
      | Some cat \<Rightarrow> scanTracker w now cat s)"

section \<open>Properties and example data\<close>

text \<open>
  The data model has a trade's size as a decimal that is not negative; a world is
  well-formed when every history it returns has such sizes only.
\<close>

definition sizes_nonneg :: "trade list \<Rightarrow> bool" where
  "sizes_nonneg trades =
     list_all (\<lambda>t. case usdcSize t of None \<Rightarrow> True | Some v \<Rightarrow> 0 \<le> v) trades"

definition world_sizes_nonneg :: "world \<Rightarrow> bool" where
  "world_sizes_nonneg w = (\<forall>n a h. history_at w n a = Some h \<longrightarrow> sizes_nonneg h)"

text \<open>The invariant of the score cache: every stored score lies between 0 and 100.\<close>

definition cache_scores_ok :: "(string \<rightharpoonup> score_record) \<Rightarrow> bool" where
  "cache_scores_ok c = (\<forall>a r. c a = Some r \<longrightarrow> 0 \<le> score r \<and> score r \<le> 100)"

definition event_ok :: "int \<Rightarrow> whale_event \<Rightarrow> bool" where
  "event_ok minSc e = (betSize e \<ge> MIN_WHALE_BET \<and> whaleScore e \<ge> minSc)"

text \<open>
  The order of the alert feed: a higher score first, and of two equal scores the later
  timestamp first.
\<close>

definition feed_order :: "whale_event \<Rightarrow> whale_event \<Rightarrow> bool" where
  "feed_order a b =
     (whaleScore a > whaleScore b
      \<or> (whaleScore a = whaleScore b \<and> whale_event.timestamp a \<ge> whale_event.timestamp b))"

text \<open>
  An example world: one market about Bitcoin with one bet of wallet \<open>0xA\<close>, whose history
  is that one large trade and whose one position, on that market, is closed with a gain.
\<close>

definition demo_trade :: trade where
  "demo_trade = \<lparr> type = ''TRADE'', proxyWallet = ''0xA'', conditionId = Defined ''m1'',
     usdcSize = Some 500000, side = ''BUY'', price = 0.5, outcome = ''Yes'',
     trade.timestamp = 1700000000, transactionHash = ''0x01'' \<rparr>"

definition demo_position :: position where
  "demo_position = \<lparr> position.market = Some \<lparr> closed = True, condition_id = Defined ''m1'' \<rparr>,
     cashPnl = Some 1200 \<rparr>"

definition demo_market :: market_info where
  "demo_market = \<lparr> question = ''Will BTC hit 100k?'', slug = ''btc-100k'',
     market_info.condition_id = ''m1'', tags = Some [''Crypto''] \<rparr>"

definition demo_world :: world where
  "demo_world = \<lparr> now_at = (\<lambda>n. 1700000000000 + int n),
     markets_at = (\<lambda>n tag limit. Some [demo_market]),
     activity_at = (\<lambda>n c. if c = ''m1'' then Some [demo_trade] else None),
     history_at = (\<lambda>n a. if a = ''0xA'' then Some [demo_trade] else None),
     positions_at = (\<lambda>n a. if a = ''0xA'' then Some [demo_position] else None) \<rparr>"

definition no_history_world :: world where
  "no_history_world = demo_world \<lparr> history_at := (\<lambda>n a. None) \<rparr>"

definition api_init :: api_state where
  "api_init = \<lparr> tick = 0, whaleScores = Map.empty \<rparr>"

definition demo_record :: score_record where
  "demo_record = \<lparr> score = 90, score_record.timestamp = 1700000000005,
     score_record.metrics = \<lparr> winRate = 100, avgBetSize = 500000, totalVolume = 500000,
        totalTrades = 1, recentPerformance = 100 \<rparr> \<rparr>"

definition demo_event :: whale_event where
  "demo_event = whaleEvent demo_market demo_trade 90 demo_record"

text \<open>
  Two variants: in \<open>open_world\<close> the only position is on a market that is still open; in
  \<open>unmatched_world\<close> the wallet has no position at all.
\<close>

definition open_position :: position where
  "open_position = \<lparr> position.market = Some \<lparr> closed = False, condition_id = Defined ''m1'' \<rparr>,
     cashPnl = Some 1200 \<rparr>"

definition open_world :: world where
  "open_world = demo_world \<lparr> positions_at := (\<lambda>n a. Some [open_position]) \<rparr>"

definition unmatched_world :: world where
  "unmatched_world = demo_world \<lparr> positions_at := (\<lambda>n a. Some []) \<rparr>"

text \<open>
  An example run of the tracker on a page that has every element: the category
  \<open>crypto\<close> is started, its timer fires 31 seconds later and the scan is under way
  (\<open>inflight\<close>), the category is stopped, and then the scan returns (\<open>landed\<close>).
\<close>

definition demo_page :: dom where
  "demo_page = \<lparr> present = (\<lambda>e. True), whalesHtml = Map.empty, countText = Map.empty,
     scoreText = Map.empty, volumeText = Map.empty, activeClass = Map.empty, logItems = [],
     whaleAlertCount = 0, whaleAlerts = [] \<rparr>"

definition tracker0 :: tracker where
  "tracker0 = constructor (Some api_init) True NoItem demo_page"

definition running :: tracker where
  "running = startTracker demo_world 1700000000000 1700000001000 ''crypto'' tracker0"

definition inflight ::
    "(category_id \<times> (error + whale_event list)) option \<times> tracker" where
  "inflight = scanTracker_begin demo_world 1700000031000 ''crypto'' running"

definition stopped :: tracker where
  "stopped = stopTracker 1700000032000 ''crypto'' (snd inflight)"

definition landed :: tracker where
  "landed = (case fst inflight of
               None \<Rightarrow> stopped
             | Some pending \<Rightarrow> scanTracker_finish ''crypto'' pending stopped)"

text \<open>
  Three trades of 20000, 20000 and 16875, the first two on the market of an open
  position with a gain: the exact weighted sum is 48.5, the sum of the doubles is just
  below it. And one trade with a negative size.
\<close>

definition sized_trade :: "string \<Rightarrow> real \<Rightarrow> trade" where
  "sized_trade m v = demo_trade \<lparr> trade.conditionId := Defined m, usdcSize := Some v \<rparr>"

definition three_trades :: "trade list" where
  "three_trades = [sized_trade ''m1'' 20000, sized_trade ''m1'' 20000, sized_trade ''m2'' 16875]"

definition three_world :: world where
  "three_world = demo_world \<lparr> history_at := (\<lambda>n a. Some three_trades),
     positions_at := (\<lambda>n a. Some [open_position]) \<rparr>"

definition negative_world :: world where
  "negative_world = demo_world \<lparr> history_at := (\<lambda>n a. Some [sized_trade ''m1'' (- 1000000)]),
     positions_at := (\<lambda>n a. None) \<rparr>"

text \<open>
  The states of the tracker that the code produces: the constructor's, and from one of
  them the state after any of the tracker's own operations, whole or in the parts that
  an \<^verbatim>\<open>await\<close> separates, with any result for a scan under way. The API object, the page
  and the stored item belong to the browser and may change in between. No rule assigns
  \<open>minScore\<close> or \<open>autoTrade\<close>: the source assigns them in the constructor and in
  \<^verbatim>\<open>loadState\<close> only.
\<close>

inductive reachable :: "tracker \<Rightarrow> bool" where
  constructed: "reachable (constructor a available item pg)"
| started: "reachable s \<Longrightarrow> reachable (startTracker w now nowSave cat s)"
| start_logged: "reachable s \<Longrightarrow> reachable (logActivity (Started cat) LogInfo s)"
| start_finished: "reachable s \<Longrightarrow> reachable (startTracker_finish nowSave cat s)"
| stopped: "reachable s \<Longrightarrow> reachable (stopTracker nowSave cat s)"
| scanned: "reachable s \<Longrightarrow> reachable (scanTracker w now cat s)"
| scan_begun: "reachable s \<Longrightarrow> reachable (snd (scanTracker_begin w now cat s))"
| scan_finished: "reachable s \<Longrightarrow> reachable (scanTracker_finish cat pending s)"
| timer_fired: "reachable s \<Longrightarrow> reachable (intervalFires w now intervalId s)"
| saved: "reachable s \<Longrightarrow> reachable (saveState now s)"
| loaded: "reachable s \<Longrightarrow> reachable (loadState s)"
| api_changed: "reachable s \<Longrightarrow> reachable (s\<lparr>api := a\<rparr>)"
| page_changed: "reachable s \<Longrightarrow> reachable (s\<lparr>page := pg\<rparr>)"
| storage_changed:
    "reachable s \<Longrightarrow> reachable (s\<lparr>localStorage := item, storageAvailable := available\<rparr>)"

text \<open>
  The pool of the events, as a multiset: for each entry of \<^verbatim>\<open>whaleData\<close> its events, with
  the entry's key as category. And the pool of the running categories only, those with an
  entry in \<^verbatim>\<open>monitors\<close>.
\<close>

definition pooled :: "(string \<times> whale_event list) list \<Rightarrow> whale_event multiset" where
  "pooled wd = (\<Sum>(c, ws)\<leftarrow>wd. image_mset (\<lambda>e. e\<lparr>category := c\<rparr>) (mset ws))"

definition activePool :: "tracker \<Rightarrow> whale_event list" where
  "activePool s = allWhales (filter (\<lambda>(c, ws). has (monitors s) c) (whaleData s))"

text \<open>An event with a given score and timestamp, for examples of the feed's order.\<close>

definition ev :: "int \<Rightarrow> int \<Rightarrow> whale_event" where
  "ev sc ts = demo_event\<lparr>whaleScore := sc, whale_event.timestamp := ts\<rparr>"

text \<open>
  A tracker with the categories \<open>sports\<close> and \<open>crypto\<close> running that holds twelve events
  of \<open>sports\<close>, with the scores 60 to 71, and ten events that a scan of \<open>crypto\<close> finds,
  with the scores 65 to 74 and later timestamps.
\<close>

definition sports_events :: "whale_event list" where
  "sports_events = map (\<lambda>i. (ev (60 + int i) (int i))\<lparr>market := ''NBA finals: game 7''\<rparr>) [0..<12]"

definition crypto_events :: "whale_event list" where
  "crypto_events = map (\<lambda>i. ev (65 + int i) (100 + int i)) [0..<10]"

definition two_trackers :: tracker where
  "two_trackers = tracker0 \<lparr> monitors := [(''sports'', 1), (''crypto'', 2)],
     whaleData := [(''sports'', sports_events)],
     intervals := [(1, ''sports''), (2, ''crypto'')], nextIntervalId := 3 \<rparr>"

section \<open>Rounding to a double\<close>

lemma expo_bounds:
  assumes "x > 0"
  shows "2 powi (expo x) \<le> x" "x < 2 powi (expo x + 1)"
proof -
  have "2 powr (of_int (expo x)) \<le> x \<and> x < 2 powr (of_int (expo x + 1))"
    using floor_log_eq_powr_iff[of x 2 "expo x"] assms by (simp add: expo_def)
  then show "2 powi (expo x) \<le> x" "x < 2 powi (expo x + 1)"
    using powr_real_of_int'[of "2::real" "expo x"] powr_real_of_int'[of "2::real" "expo x + 1"]
    by simp_all
qed

lemma expo_unique:
  assumes "x > 0" "2 powi e \<le> x" "x < 2 powi (e + 1)"
  shows "expo x = e"
proof -
  have "2 powr (of_int e) \<le> x \<and> x < 2 powr (of_int (e + 1))"
    using assms powr_real_of_int'[of "2::real" e] powr_real_of_int'[of "2::real" "e + 1"]
    by simp
  then have "\<lfloor>log 2 x\<rfloor> = e"
    using floor_log_eq_powr_iff[of x 2 e] assms(1) by simp
  with assms(1) show ?thesis by (simp add: expo_def)
qed

lemma expo_code:
  "expo x = (if x \<le> 0 then 0
             else if 2 \<le> x then expo (x / 2) + 1
             else if x < 1 then expo (x * 2) - 1
             else 0)"
proof (cases "x \<le> 0")
  case True
  then show ?thesis by (simp add: expo_def)
next
  case False
  then have pos: "x > 0" by simp
  show ?thesis
  proof (cases "2 \<le> x")
    case True
    have h: "x / 2 > 0" using pos by simp
    from expo_bounds[OF h] have "2 powi (expo (x / 2) + 1) \<le> x" "x < 2 powi (expo (x / 2) + 1 + 1)"
      by (simp_all add: power_int_add field_simps)
    from expo_unique[OF pos this] True pos show ?thesis by simp
  next
    case f2: False
    show ?thesis
    proof (cases "x < 1")
      case True
      have h: "x * 2 > 0" using pos by simp
      from expo_bounds[OF h] have "2 powi (expo (x * 2) - 1) \<le> x" "x < 2 powi (expo (x * 2) - 1 + 1)"
        by (simp_all add: power_int_diff power_int_add field_simps)
      from expo_unique[OF pos this] True pos f2 show ?thesis by simp
    next
      case False
      with f2 pos have "2 powi 0 \<le> x" "x < 2 powi (0 + 1)" by simp_all
      from expo_unique[OF pos this] False f2 pos show ?thesis by simp
    qed
  qed
qed

lemma rne_mono: "x \<le> y \<Longrightarrow> rne x \<le> rne y"
proof -
  assume xy: "x \<le> y"
  have fx: "\<lfloor>x\<rfloor> \<le> rne x \<and> rne x \<le> \<lfloor>x\<rfloor> + 1" for x
    by (simp add: rne_def Let_def)
  show ?thesis
  proof (cases "\<lfloor>x\<rfloor> = \<lfloor>y\<rfloor>")
    case True
    with xy show ?thesis by (auto simp: rne_def Let_def)
  next
    case False
    with xy have "\<lfloor>x\<rfloor> + 1 \<le> \<lfloor>y\<rfloor>" using floor_mono[OF xy] by linarith
    with fx[of x] fx[of y] show ?thesis by linarith
  qed
qed

lemma rne_of_int [simp]: "rne (of_int n) = n"
  by (simp add: rne_def Let_def)

lemma ulp_pos: "ulp x > 0"
  by (simp add: ulp_def)

text \<open>A positive number and its rounding lie in one binade, ends included.\<close>

lemma fl_pos_bounds:
  assumes "x > 0"
  shows "fl x = of_int (rne (x / ulp x)) * ulp x"
    and "2 powi (expo x) \<le> fl x" and "fl x \<le> 2 powi (expo x + 1)"
proof -
  let ?u = "ulp x"
  show eq: "fl x = of_int (rne (x / ?u)) * ?u"
    using assms by (simp add: fl_def)
  have u: "?u > 0" by (rule ulp_pos)
  have lo: "2 powi (expo x) = of_int (2 ^ 52) * ?u"
    by (simp add: ulp_def power_int_diff)
  have hi: "2 powi (expo x + 1) = of_int (2 ^ 53) * ?u"
    by (simp add: ulp_def power_int_diff power_int_add)
  from expo_bounds[OF assms] lo hi u have "of_int (2 ^ 52) \<le> x / ?u" "x / ?u \<le> of_int (2 ^ 53)"
    by (simp_all add: field_simps)
  then have "rne (of_int (2 ^ 52)) \<le> rne (x / ?u)" "rne (x / ?u) \<le> rne (of_int (2 ^ 53))"
    by (auto intro: rne_mono)
  then have "(2 ^ 52 :: int) \<le> rne (x / ?u)" "rne (x / ?u) \<le> (2 ^ 53 :: int)"
    by (simp_all only: rne_of_int)
  then have "of_int (2 ^ 52) \<le> (of_int (rne (x / ?u)) :: real)"
    "(of_int (rne (x / ?u)) :: real) \<le> of_int (2 ^ 53)"
    by (simp_all only: of_int_le_iff)
  with u show "2 powi (expo x) \<le> fl x" "fl x \<le> 2 powi (expo x + 1)"
    unfolding eq lo hi by (simp_all add: mult_right_mono)
qed

lemma expo_mono: "0 < x \<Longrightarrow> x \<le> y \<Longrightarrow> expo x \<le> expo y"
  by (simp add: expo_def floor_mono)

lemma fl_mono_pos:
  assumes "0 < x" "x \<le> y"
  shows "fl x \<le> fl y"
proof -
  have y: "0 < y" using assms by simp
  show ?thesis
  proof (cases "expo x = expo y")
    case True
    then have u: "ulp x = ulp y" by (simp add: ulp_def)
    have "x / ulp y \<le> y / ulp y" using assms ulp_pos[of y] by (simp add: divide_right_mono)
    then have "rne (x / ulp y) \<le> rne (y / ulp y)" by (rule rne_mono)
    then have "(of_int (rne (x / ulp y)) :: real) \<le> of_int (rne (y / ulp y))" by simp
    with ulp_pos[of y] show ?thesis
      by (simp add: fl_pos_bounds(1)[OF assms(1)] fl_pos_bounds(1)[OF y] u mult_right_mono)
  next
    case False
    with expo_mono[OF assms] have "expo x + 1 \<le> expo y" by simp
    then have "(2::real) powi (expo x + 1) \<le> 2 powi (expo y)"
      by (simp add: power_int_increasing)
    with fl_pos_bounds(3)[OF assms(1)] fl_pos_bounds(2)[OF y] show ?thesis by linarith
  qed
qed

lemma fl_0 [simp]: "fl 0 = 0"
  by (simp add: fl_def)

lemma fl_minus: "fl (- x) = - fl x"
  by (simp add: fl_def sgn_minus)

lemma fl_pos: "0 < x \<Longrightarrow> 0 < fl x"
  using fl_pos_bounds(2)[of x] by (smt (verit) zero_less_power_int)

lemma fl_nonneg: "0 \<le> x \<Longrightarrow> 0 \<le> fl x"
  using fl_pos[of x] by (cases "x = 0") auto

lemma fl_mono: "x \<le> y \<Longrightarrow> fl x \<le> fl y"
proof -
  assume xy: "x \<le> y"
  consider "0 < x" | "x \<le> 0" "0 \<le> y" | "y < 0" by linarith
  then show ?thesis
  proof cases
    case 1
    then show ?thesis using xy by (rule fl_mono_pos)
  next
    case 2
    have "fl x \<le> 0" using fl_nonneg[of "- x"] 2(1) by (simp add: fl_minus)
    moreover have "0 \<le> fl y" using 2(2) by (rule fl_nonneg)
    ultimately show ?thesis by simp
  next
    case 3
    then have "0 < - y" "- y \<le> - x" using xy by simp_all
    then have "fl (- y) \<le> fl (- x)" by (rule fl_mono_pos)
    then show ?thesis by (simp add: fl_minus)
  qed
qed

text \<open>
  On a numeral the rounding is computed by these equations; \<open>expo_code\<close> finds the
  exponent by halving and doubling.
\<close>

lemmas fl_eval = fl_def ulp_def rne_def expo_code fadd_def fmul_def fdiv_def parseFloat_def
  Let_def

lemma fl_values:
  "fl 1 = 1" "fl 100 = 100"
  "fmul 100 (fl 0.4) = 40" "fmul 100 (fl 0.2) = 20" "fmul 100 (fl 0.1) = 10"
  "fadd 40 20 = 60" "fadd 60 20 = 80" "fadd 80 10 = 90" "fadd 90 10 = 100"
  by (simp_all add: fl_eval)

lemma fadd_mono: "a \<le> a' \<Longrightarrow> b \<le> b' \<Longrightarrow> fadd a b \<le> fadd a' b'"
  by (simp add: fadd_def fl_mono)

lemma fmul_mono: "0 \<le> c \<Longrightarrow> a \<le> b \<Longrightarrow> fmul a c \<le> fmul b c"
  by (simp add: fmul_def fl_mono mult_right_mono)

lemma fadd_nonneg: "0 \<le> a \<Longrightarrow> 0 \<le> b \<Longrightarrow> 0 \<le> fadd a b"
  by (simp add: fadd_def fl_nonneg)

lemma fmul_nonneg: "0 \<le> a \<Longrightarrow> 0 \<le> b \<Longrightarrow> 0 \<le> fmul a b"
  by (simp add: fmul_def fl_nonneg)

lemma fdiv_nonneg: "0 \<le> a \<Longrightarrow> 0 \<le> b \<Longrightarrow> 0 \<le> fdiv a b"
  by (simp add: fdiv_def fl_nonneg)

text \<open>A share of a whole, as a percentage, lies between 0 and 100.\<close>

lemma percentage_bounds:
  assumes "m \<le> n"
  shows "0 \<le> fmul (fdiv (real m) (real n)) 100 \<and> fmul (fdiv (real m) (real n)) 100 \<le> 100"
proof -
  have "real m / real n \<le> 1" using assms by (simp add: divide_le_eq)
  then have "fdiv (real m) (real n) \<le> 1"
    using fl_mono[of "real m / real n" 1] by (simp add: fdiv_def fl_values)
  moreover have q: "0 \<le> fdiv (real m) (real n)" by (simp add: fdiv_nonneg)
  ultimately have "fmul (fdiv (real m) (real n)) 100 \<le> 100"
    using fl_mono[of "fdiv (real m) (real n) * 100" 100] by (simp add: fmul_def fl_values)
  with q show ?thesis by (simp add: fmul_nonneg)
qed

section \<open>The score is an integer between 0 and 100\<close>

lemma usdc_nonneg: "sizes_nonneg trades \<Longrightarrow> list_all (\<lambda>t. 0 \<le> usdc t) trades"
  by (induction trades) (auto simp: sizes_nonneg_def usdc_def parseFloat_def fl_nonneg
      split: option.splits)

lemma foldl_usdc_nonneg:
  "0 \<le> acc \<Longrightarrow> list_all (\<lambda>t. 0 \<le> usdc t) trades
     \<Longrightarrow> 0 \<le> foldl (\<lambda>sum t. fadd sum (usdc t)) acc trades"
  by (induction trades arbitrary: acc) (auto simp: fadd_nonneg)

lemma totalVolume_nonneg: "sizes_nonneg trades \<Longrightarrow> 0 \<le> totalVolume_of trades"
  by (simp add: totalVolume_of_def usdc_nonneg foldl_usdc_nonneg)

lemma winRate_bounds: "0 \<le> winRate_of ps \<and> winRate_of ps \<le> 100"
proof -
  have "length (winningPositions ps) \<le> length (resolvedPositions ps)"
    by (simp add: winningPositions_def)
  from percentage_bounds[OF this] show ?thesis
    by (simp add: winRate_of_def)
qed

lemma recentPerformance_bounds:
  "0 \<le> recentPerformance_of ts ps \<and> recentPerformance_of ts ps \<le> 100"
proof -
  have "recentWins ts ps \<le> length (recentPositions ts ps)"
    by (simp add: recentWins_def)
  from percentage_bounds[OF this] show ?thesis
    by (simp add: recentPerformance_of_def)
qed

lemma betSizeScore_bounds:
  "sizes_nonneg ts \<Longrightarrow> 0 \<le> betSizeScore ts \<and> betSizeScore ts \<le> 100"
  using totalVolume_nonneg[of ts]
  by (simp add: betSizeScore_def avgBetSize_of_def fmul_nonneg fdiv_nonneg)

lemma volumeScore_bounds:
  "sizes_nonneg ts \<Longrightarrow> 0 \<le> volumeScore ts \<and> volumeScore ts \<le> 100"
  using totalVolume_nonneg[of ts] by (simp add: volumeScore_def fmul_nonneg fdiv_nonneg)

lemma frequencyScore_bounds: "0 \<le> frequencyScore ts \<and> frequencyScore ts \<le> 100"
  by (simp add: frequencyScore_def fmul_nonneg fdiv_nonneg)

lemma weighted_bounds:
  assumes "0 \<le> wr" "wr \<le> 100" "0 \<le> bs" "bs \<le> 100" "0 \<le> vs" "vs \<le> 100"
    "0 \<le> fs" "fs \<le> 100" "0 \<le> rp" "rp \<le> 100"
  shows "0 \<le> weighted wr bs vs fs rp \<and> weighted wr bs vs fs rp \<le> 100"
proof -
  have c: "0 \<le> fl 0.4" "0 \<le> fl 0.2" "0 \<le> fl 0.1"
    by (simp_all add: fl_nonneg)
  have lo: "0 \<le> weighted wr bs vs fs rp"
    unfolding weighted_def using assms c by (intro fadd_nonneg fmul_nonneg)
  have t1: "fmul wr (fl 0.4) \<le> 40" using fmul_mono[OF c(1) assms(2)] by (simp only: fl_values)
  have t2: "fmul bs (fl 0.2) \<le> 20" using fmul_mono[OF c(2) assms(4)] by (simp only: fl_values)
  have t3: "fmul vs (fl 0.2) \<le> 20" using fmul_mono[OF c(2) assms(6)] by (simp only: fl_values)
  have t4: "fmul fs (fl 0.1) \<le> 10" using fmul_mono[OF c(3) assms(8)] by (simp only: fl_values)
  have t5: "fmul rp (fl 0.1) \<le> 10" using fmul_mono[OF c(3) assms(10)] by (simp only: fl_values)
  have s2: "fadd (fmul wr (fl 0.4)) (fmul bs (fl 0.2)) \<le> 60"
    using fadd_mono[OF t1 t2] by (simp only: fl_values)
  have s3: "fadd (fadd (fmul wr (fl 0.4)) (fmul bs (fl 0.2))) (fmul vs (fl 0.2)) \<le> 80"
    using fadd_mono[OF s2 t3] by (simp only: fl_values)
  have s4: "fadd (fadd (fadd (fmul wr (fl 0.4)) (fmul bs (fl 0.2))) (fmul vs (fl 0.2)))
      (fmul fs (fl 0.1)) \<le> 90"
    using fadd_mono[OF s3 t4] by (simp only: fl_values)
  have "weighted wr bs vs fs rp \<le> 100"
    using fadd_mono[OF s4 t5] by (simp only: weighted_def fl_values)
  with lo show ?thesis by simp
qed

lemma weightedSum_bounds:
  assumes "sizes_nonneg ts"
  shows "0 \<le> weightedSum ts ps \<and> weightedSum ts ps \<le> 100"
  using winRate_bounds[of ps] recentPerformance_bounds[of ts ps]
    betSizeScore_bounds[OF assms] volumeScore_bounds[OF assms] frequencyScore_bounds[of ts]
  by (simp add: weightedSum_def weighted_bounds)

lemma whaleScore_bounds:
  assumes "sizes_nonneg ts"
  shows "0 \<le> whaleScore_of ts ps \<and> whaleScore_of ts ps \<le> 100"
proof -
  from weightedSum_bounds[OF assms, of ps]
  have a: "0 \<le> weightedSum ts ps" and b: "weightedSum ts ps \<le> 100" by auto
  have "round (0::real) \<le> round (weightedSum ts ps)" using a by (rule round_mono)
  moreover have "round (weightedSum ts ps) \<le> round (100::real)" using b by (rule round_mono)
  ultimately show ?thesis by (simp add: whaleScore_of_def)
qed

lemma sizes_nonneg_filter: "sizes_nonneg h \<Longrightarrow> sizes_nonneg (filter P h)"
  by (induction h) (auto simp: sizes_nonneg_def)

lemma cachedScore_range:
  "cache_scores_ok (whaleScores s) \<Longrightarrow> cachedScore w a s = Some sc \<Longrightarrow> 0 \<le> sc \<and> sc \<le> 100"
  by (auto simp: cachedScore_def cache_scores_ok_def split: option.splits if_splits)

lemma calculateWhaleScore_cached:
  "cachedScore w a s = Some sc \<Longrightarrow> calculateWhaleScore w a s = (sc, s\<lparr>tick := tick s + 4\<rparr>)"
  by (simp add: calculateWhaleScore_def)

lemma calculateWhaleScore_no_trades:
  assumes "cachedScore w a s = None"
    and "case history_at w (tick s + 1) a of None \<Rightarrow> True
         | Some history \<Rightarrow> filter (\<lambda>t. type t = ''TRADE'') history = []"
  shows "calculateWhaleScore w a s = (0, s\<lparr>tick := tick s + 4\<rparr>)"
  using assms by (auto simp: calculateWhaleScore_def Let_def split: option.splits)

lemma calculateWhaleScore_full:
  assumes "cachedScore w a s = None"
    and "history_at w (tick s + 1) a = Some history"
    and "filter (\<lambda>t. type t = ''TRADE'') history \<noteq> []"
  shows "calculateWhaleScore w a s =
     (whaleScore_of (filter (\<lambda>t. type t = ''TRADE'') history) (positions_at w (tick s + 2) a),
      s\<lparr>tick := tick s + 4,
        whaleScores := (whaleScores s)(a \<mapsto>
          \<lparr> score = whaleScore_of (filter (\<lambda>t. type t = ''TRADE'') history)
                      (positions_at w (tick s + 2) a),
            score_record.timestamp = now_at w (tick s + 3),
            score_record.metrics = metrics_of (filter (\<lambda>t. type t = ''TRADE'') history)
                      (positions_at w (tick s + 2) a) \<rparr>)\<rparr>)"
proof -
  from assms(3) have "history \<noteq> []" by auto
  with assms show ?thesis
    by (simp add: calculateWhaleScore_def Let_def)
qed

lemma recentPositions_length: "length (recentPositions ts ps) = min 10 (length ts)"
  by (simp add: recentPositions_def min.commute)

lemmas score_defs = whaleScore_of_def weightedSum_def weighted_def winRate_of_def
      resolvedPositions_def winningPositions_def winning_def betSizeScore_def volumeScore_def
      frequencyScore_def avgBetSize_of_def totalVolume_of_def usdc_def recentPerformance_of_def
      recentPositions_def recentWins_def marketPositions_def metrics_of_def round_def

lemmas demo_defs = demo_trade_def demo_position_def open_position_def sized_trade_def
      three_trades_def

text \<open>The scores of the example data, computed in doubles.\<close>

lemma demo_values:
  "whaleScore_of [demo_trade] (Some [demo_position]) = 90"
  "whaleScore_of [demo_trade] (Some [open_position]) = 70"
  "whaleScore_of [demo_trade] (Some []) = 60"
  "whaleScore_of three_trades (Some [open_position]) = 48"
  "whaleScore_of [sized_trade ''m1'' (- 1000000)] None = - 1020"
  "usdc demo_trade = 500000"
  by (simp_all add: score_defs demo_defs fl_eval split del: if_split)

lemma demo_metrics:
  "metrics_of [demo_trade] (Some [demo_position])
     = \<lparr> winRate = 100, avgBetSize = 500000, totalVolume = 500000,
         totalTrades = 1, recentPerformance = 100 \<rparr>"
  "metrics.winRate (metrics_of [demo_trade] (Some [open_position])) = 50"
  "metrics.recentPerformance (metrics_of [demo_trade] (Some [])) = 0"
  by (simp_all add: score_defs demo_defs fl_eval split del: if_split)

lemma demo_trade_fields:
  "type demo_trade = ''TRADE''" "proxyWallet demo_trade = ''0xA''"
  "type (sized_trade m v) = ''TRADE''"
  by (simp_all add: demo_trade_def sized_trade_def)

lemma api_init_fields: "tick api_init = 0" "whaleScores api_init = Map.empty"
  by (simp_all add: api_init_def)

lemma cachedScore_miss: "whaleScores s a = None \<Longrightarrow> cachedScore w a s = None"
  by (simp add: cachedScore_def)

text \<open>The score of wallet \<open>0xA\<close> in the example world, computed and then read from the cache.\<close>

lemma demo_score_at:
  assumes "whaleScores s ''0xA'' = None"
  shows "calculateWhaleScore demo_world ''0xA'' s =
     (90, s\<lparr>tick := tick s + 4,
            whaleScores := (whaleScores s)(''0xA'' \<mapsto>
              demo_record\<lparr>score_record.timestamp := 1700000000000 + int (tick s + 3)\<rparr>)\<rparr>)"
proof -
  have h: "history_at demo_world (tick s + 1) ''0xA'' = Some [demo_trade]"
    and p: "positions_at demo_world (tick s + 2) ''0xA'' = Some [demo_position]"
    and n: "now_at demo_world (tick s + 3) = 1700000000000 + int (tick s + 3)"
    by (simp_all add: demo_world_def)
  have f: "filter (\<lambda>t. type t = ''TRADE'') [demo_trade] = [demo_trade]"
    by (simp add: demo_trade_fields)
  then have ne: "filter (\<lambda>t. type t = ''TRADE'') [demo_trade] \<noteq> []" by simp
  show ?thesis
    unfolding calculateWhaleScore_full[OF cachedScore_miss[OF assms] h ne] f p n
    by (simp add: demo_values demo_metrics demo_record_def)
qed

lemma demo_score_cached:
  assumes "whaleScores s ''0xA'' = Some demo_record" and "tick s < 300000"
  shows "calculateWhaleScore demo_world ''0xA'' s = (90, s\<lparr>tick := tick s + 4\<rparr>)"
proof -
  have "cachedScore demo_world ''0xA'' s = Some 90"
    using assms by (simp add: cachedScore_def demo_world_def demo_record_def)
  then show ?thesis by (rule calculateWhaleScore_cached)
qed

lemma demo_score:
  "calculateWhaleScore demo_world ''0xA'' api_init =
     (90, \<lparr> tick = 4, whaleScores = [''0xA'' \<mapsto> demo_record\<lparr>score_record.timestamp := 1700000000003\<rparr>] \<rparr>)"
  using demo_score_at[of api_init] by (simp add: api_init_def)

lemma three_score: "fst (calculateWhaleScore three_world ''0xA'' api_init) = 48"
proof -
  have h: "history_at three_world (tick api_init + 1) ''0xA'' = Some three_trades"
    and p: "positions_at three_world (tick api_init + 2) ''0xA'' = Some [open_position]"
    by (simp_all add: three_world_def)
  have f: "filter (\<lambda>t. type t = ''TRADE'') three_trades = three_trades"
    by (simp add: three_trades_def demo_trade_fields)
  then have ne: "filter (\<lambda>t. type t = ''TRADE'') three_trades \<noteq> []"
    by (simp add: three_trades_def)
  show ?thesis
    unfolding calculateWhaleScore_full[OF cachedScore_miss h ne, OF api_init_fields(2)[THEN fun_cong]] f p
    by (simp add: demo_values)
qed

lemma negative_score: "fst (calculateWhaleScore negative_world ''0xA'' api_init) = - 1020"
proof -
  have h: "history_at negative_world (tick api_init + 1) ''0xA''
             = Some [sized_trade ''m1'' (- 1000000)]"
    and p: "positions_at negative_world (tick api_init + 2) ''0xA'' = None"
    by (simp_all add: negative_world_def)
  have f: "filter (\<lambda>t. type t = ''TRADE'') [sized_trade ''m1'' (- 1000000)]
             = [sized_trade ''m1'' (- 1000000)]"
    by (simp add: demo_trade_fields)
  then have ne: "filter (\<lambda>t. type t = ''TRADE'') [sized_trade ''m1'' (- 1000000)] \<noteq> []"
    by simp
  show ?thesis
    unfolding calculateWhaleScore_full[OF cachedScore_miss h ne, OF api_init_fields(2)[THEN fun_cong]] f p
    by (simp add: demo_values)
qed

lemma demo_world_sizes_nonneg: "world_sizes_nonneg demo_world" "world_sizes_nonneg three_world"
  by (auto simp: world_sizes_nonneg_def sizes_nonneg_def demo_world_def three_world_def
      three_trades_def sized_trade_def demo_trade_def split: if_splits)

text \<open>
  Claim C1, as amended. In a world whose histories have no negative trade size, and with a
  cache that holds scores between 0 and 100 only (the empty cache of a new API object
  does), the score that \<open>calculateWhaleScore\<close> returns is an integer between 0 and 100 and
  the cache keeps its invariant. On the full path (no young cache record, a history with
  trades) the score is \<^verbatim>\<open>Math.round\<close> of the sum, added in doubles from the left, of the
  five sub-scores times the doubles next to 0.4, 0.2, 0.2, 0.1 and 0.1.
\<close>

theorem calculateWhaleScore_score_range:
  assumes wf: "world_sizes_nonneg w" and inv: "cache_scores_ok (whaleScores s)"
  shows "0 \<le> fst (calculateWhaleScore w a s) \<and> fst (calculateWhaleScore w a s) \<le> 100
     \<and> cache_scores_ok (whaleScores (snd (calculateWhaleScore w a s)))
     \<and> (\<forall>history. cachedScore w a s = None
            \<and> history_at w (tick s + 1) a = Some history
            \<and> filter (\<lambda>t. type t = ''TRADE'') history \<noteq> [] \<longrightarrow>
          fst (calculateWhaleScore w a s) =
            round (fadd (fadd (fadd (fadd
                (fmul (winRate_of (positions_at w (tick s + 2) a)) (fl 0.4))
                (fmul (betSizeScore (filter (\<lambda>t. type t = ''TRADE'') history)) (fl 0.2)))
                (fmul (volumeScore (filter (\<lambda>t. type t = ''TRADE'') history)) (fl 0.2)))
                (fmul (frequencyScore (filter (\<lambda>t. type t = ''TRADE'') history)) (fl 0.1)))
                (fmul (recentPerformance_of (filter (\<lambda>t. type t = ''TRADE'') history)
                     (positions_at w (tick s + 2) a)) (fl 0.1))))"
proof (cases "cachedScore w a s")
  case (Some sc)
  with cachedScore_range[OF inv Some] inv show ?thesis
    by (simp add: calculateWhaleScore_cached)
next
  case None
  show ?thesis
  proof (cases "case history_at w (tick s + 1) a of None \<Rightarrow> True
         | Some history \<Rightarrow> filter (\<lambda>t. type t = ''TRADE'') history = []")
    case True
    from calculateWhaleScore_no_trades[OF None True] inv True show ?thesis
      by (auto split: option.splits)
  next
    case False
    then obtain history where h: "history_at w (tick s + 1) a = Some history"
      and ne: "filter (\<lambda>t. type t = ''TRADE'') history \<noteq> []"
      by (auto split: option.splits)
    let ?T = "filter (\<lambda>t. type t = ''TRADE'') history"
    let ?P = "positions_at w (tick s + 2) a"
    from wf h have "sizes_nonneg history" by (auto simp: world_sizes_nonneg_def)
    then have "sizes_nonneg ?T" by (rule sizes_nonneg_filter)
    then have rng: "0 \<le> whaleScore_of ?T ?P \<and> whaleScore_of ?T ?P \<le> 100"
      by (rule whaleScore_bounds)
    have eq: "whaleScore_of ?T ?P =
        round (fadd (fadd (fadd (fadd (fmul (winRate_of ?P) (fl 0.4))
          (fmul (betSizeScore ?T) (fl 0.2))) (fmul (volumeScore ?T) (fl 0.2)))
          (fmul (frequencyScore ?T) (fl 0.1))) (fmul (recentPerformance_of ?T ?P) (fl 0.1)))"
      by (simp only: whaleScore_of_def weightedSum_def weighted_def)
    from calculateWhaleScore_full[OF None h ne] rng inv h eq show ?thesis
      by (auto simp: cache_scores_ok_def)
  qed
qed

theorem calculateWhaleScore_score_range_witness:
  "world_sizes_nonneg three_world \<and> cache_scores_ok (whaleScores api_init)
   \<and> 0 \<le> fst (calculateWhaleScore three_world ''0xA'' api_init)
   \<and> fst (calculateWhaleScore three_world ''0xA'' api_init) \<le> 100
   \<and> fst (calculateWhaleScore three_world ''0xA'' api_init) = 48"
proof -
  have h2: "cache_scores_ok (whaleScores api_init)"
    by (simp add: cache_scores_ok_def api_init_def)
  from calculateWhaleScore_score_range[OF demo_world_sizes_nonneg(2) h2, of "''0xA''"]
    demo_world_sizes_nonneg(2) h2 three_score
  show ?thesis by simp
qed

text \<open>
  Claim C1 as stated fails for a history with a negative size: nothing bounds the bet size
  score and the volume score from below, and one trade of -1000000 gives the score -1020.
\<close>

theorem negative_size_score_counterexample:
  "history_at negative_world 1 ''0xA'' = Some [sized_trade ''m1'' (- 1000000)]
   \<and> usdcSize (sized_trade ''m1'' (- 1000000)) = Some (- 1000000)
   \<and> fst (calculateWhaleScore negative_world ''0xA'' api_init) = - 1020"
  using negative_score by (simp add: negative_world_def sized_trade_def)

section \<open>The win rate and the recent performance\<close>

text \<open>
  Claim C6. On the full path of \<open>calculateWhaleScore\<close>, when no position of the wallet is
  on a closed market, the win rate is exactly 50: the score is the rounded sum with 50 in
  the place of the win rate, and the record stored for the wallet shows a win rate of 50.
\<close>

theorem winRate_neutral_without_resolved:
  assumes "cachedScore w a s = None"
    and "history_at w (tick s + 1) a = Some history"
    and "filter (\<lambda>t. type t = ''TRADE'') history \<noteq> []"
    and "resolvedPositions (positions_at w (tick s + 2) a) = []"
  shows "winRate_of (positions_at w (tick s + 2) a) = 50
     \<and> fst (calculateWhaleScore w a s) =
         round (fadd (fadd (fadd (fadd
             (fmul 50 (fl 0.4))
             (fmul (betSizeScore (filter (\<lambda>t. type t = ''TRADE'') history)) (fl 0.2)))
             (fmul (volumeScore (filter (\<lambda>t. type t = ''TRADE'') history)) (fl 0.2)))
             (fmul (frequencyScore (filter (\<lambda>t. type t = ''TRADE'') history)) (fl 0.1)))
             (fmul (recentPerformance_of (filter (\<lambda>t. type t = ''TRADE'') history)
                  (positions_at w (tick s + 2) a)) (fl 0.1)))
     \<and> map_option (\<lambda>r. metrics.winRate (score_record.metrics r))
           (whaleScores (snd (calculateWhaleScore w a s)) a) = Some 50"
proof -
  have wr: "winRate_of (positions_at w (tick s + 2) a) = 50"
    using assms(4) by (simp add: winRate_of_def)
  have r: "round (50::real) = 50" by (simp add: round_def)
  have sc: "whaleScore_of (filter (\<lambda>t. type t = ''TRADE'') history) (positions_at w (tick s + 2) a)
      = round (fadd (fadd (fadd (fadd
             (fmul 50 (fl 0.4))
             (fmul (betSizeScore (filter (\<lambda>t. type t = ''TRADE'') history)) (fl 0.2)))
             (fmul (volumeScore (filter (\<lambda>t. type t = ''TRADE'') history)) (fl 0.2)))
             (fmul (frequencyScore (filter (\<lambda>t. type t = ''TRADE'') history)) (fl 0.1)))
             (fmul (recentPerformance_of (filter (\<lambda>t. type t = ''TRADE'') history)
                  (positions_at w (tick s + 2) a)) (fl 0.1)))"
    by (simp only: whaleScore_of_def weightedSum_def weighted_def wr)
  have m: "metrics.winRate (metrics_of (filter (\<lambda>t. type t = ''TRADE'') history)
      (positions_at w (tick s + 2) a)) = 50"
    unfolding metrics_of_def wr by (simp add: r)
  show ?thesis
    unfolding calculateWhaleScore_full[OF assms(1,2,3)]
    using wr sc m by simp
qed

lemma open_score:
  "fst (calculateWhaleScore open_world ''0xA'' api_init) = 70"
  "map_option (\<lambda>r. metrics.winRate (score_record.metrics r))
        (whaleScores (snd (calculateWhaleScore open_world ''0xA'' api_init)) ''0xA'') = Some 50"
proof -
  have h: "history_at open_world (tick api_init + 1) ''0xA'' = Some [demo_trade]"
    and p: "positions_at open_world (tick api_init + 2) ''0xA'' = Some [open_position]"
    by (simp_all add: open_world_def demo_world_def)
  have f: "filter (\<lambda>t. type t = ''TRADE'') [demo_trade] = [demo_trade]"
    by (simp add: demo_trade_fields)
  then have ne: "filter (\<lambda>t. type t = ''TRADE'') [demo_trade] \<noteq> []" by simp
  note e = calculateWhaleScore_full[OF cachedScore_miss h ne, OF api_init_fields(2)[THEN fun_cong]]
  show "fst (calculateWhaleScore open_world ''0xA'' api_init) = 70"
    unfolding e f p by (simp add: demo_values)
  show "map_option (\<lambda>r. metrics.winRate (score_record.metrics r))
        (whaleScores (snd (calculateWhaleScore open_world ''0xA'' api_init)) ''0xA'') = Some 50"
    unfolding e f p by (simp add: demo_metrics)
qed

theorem winRate_neutral_without_resolved_witness:
  "cachedScore open_world ''0xA'' api_init = None
   \<and> history_at open_world (tick api_init + 1) ''0xA'' = Some [demo_trade]
   \<and> resolvedPositions (positions_at open_world (tick api_init + 2) ''0xA'') = []
   \<and> winRate_of (positions_at open_world (tick api_init + 2) ''0xA'') = 50
   \<and> fst (calculateWhaleScore open_world ''0xA'' api_init) = 70
   \<and> map_option (\<lambda>r. metrics.winRate (score_record.metrics r))
        (whaleScores (snd (calculateWhaleScore open_world ''0xA'' api_init)) ''0xA'') = Some 50"
proof -
  have h1: "cachedScore open_world ''0xA'' api_init = None"
    by (simp add: cachedScore_def api_init_def)
  have h2: "history_at open_world (tick api_init + 1) ''0xA'' = Some [demo_trade]"
    by (simp add: open_world_def demo_world_def)
  have h3: "filter (\<lambda>t. type t = ''TRADE'') [demo_trade] \<noteq> []"
    by (simp add: demo_trade_fields)
  have h4: "resolvedPositions (positions_at open_world (tick api_init + 2) ''0xA'') = []"
    by (simp add: open_world_def resolvedPositions_def open_position_def)
  from winRate_neutral_without_resolved[OF h1 h2 h3 h4] h1 h2 h4 open_score
  show ?thesis by simp
qed

text \<open>
  The recent performance divides the wins by the number of the first ten trades, matched
  or not, so its default of 50 is never taken when there is a trade.
\<close>

lemma recentPerformance_eq:
  "ts \<noteq> [] \<Longrightarrow> recentPerformance_of ts ps
      = fmul (fdiv (real (recentWins ts ps)) (real (min 10 (length ts)))) 100"
  by (simp add: recentPerformance_of_def recentPositions_length)

lemma unmatched_score:
  "map_option (\<lambda>r. metrics.recentPerformance (score_record.metrics r))
        (whaleScores (snd (calculateWhaleScore unmatched_world ''0xA'' api_init)) ''0xA'') = Some 0"
  "fst (calculateWhaleScore unmatched_world ''0xA'' api_init) = 60"
proof -
  have h: "history_at unmatched_world (tick api_init + 1) ''0xA'' = Some [demo_trade]"
    and p: "positions_at unmatched_world (tick api_init + 2) ''0xA'' = Some []"
    by (simp_all add: unmatched_world_def demo_world_def)
  have f: "filter (\<lambda>t. type t = ''TRADE'') [demo_trade] = [demo_trade]"
    by (simp add: demo_trade_fields)
  then have ne: "filter (\<lambda>t. type t = ''TRADE'') [demo_trade] \<noteq> []" by simp
  note e = calculateWhaleScore_full[OF cachedScore_miss h ne, OF api_init_fields(2)[THEN fun_cong]]
  show "fst (calculateWhaleScore unmatched_world ''0xA'' api_init) = 60"
    unfolding e f p by (simp add: demo_values)
  show "map_option (\<lambda>r. metrics.recentPerformance (score_record.metrics r))
        (whaleScores (snd (calculateWhaleScore unmatched_world ''0xA'' api_init)) ''0xA'') = Some 0"
    unfolding e f p by (simp add: demo_metrics)
qed

text \<open>
  Claim C3 says that the recent performance is 50 when none of the ten most recent trades
  matches a position. The code gives 0: for the one trade of wallet \<open>0xA\<close> and an empty
  list of positions the entry for the trade is \<^verbatim>\<open>undefined\<close>, the list of entries has
  length 1, and the performance is 0 wins out of 1; the score is 60, where 50 would
  give 65.
\<close>

theorem recentPerformance_unmatched_is_zero:
  "recentPositions [demo_trade] (Some []) = [None]
   \<and> recentPerformance_of [demo_trade] (Some []) = 0
   \<and> map_option (\<lambda>r. metrics.recentPerformance (score_record.metrics r))
        (whaleScores (snd (calculateWhaleScore unmatched_world ''0xA'' api_init)) ''0xA'') = Some 0
   \<and> fst (calculateWhaleScore unmatched_world ''0xA'' api_init) = 60"
proof -
  have "recentPositions [demo_trade] (Some []) = [None]"
    by (simp add: recentPositions_def marketPositions_def)
  moreover have "recentPerformance_of [demo_trade] (Some []) = 0"
    by (simp add: score_defs fl_eval split del: if_split)
  ultimately show ?thesis using unmatched_score by simp
qed

section \<open>The scanner returns only large bets of wallets with a high score\<close>

lemma set_insort_cmp: "set (insort_cmp cmp x xs) = insert x (set xs)"
  by (induction xs) auto

lemma set_sort_cmp: "set (sort_cmp cmp xs) = set xs"
  by (induction xs) (auto simp: sort_cmp_def set_insort_cmp)

lemma scanBets_ok:
  assumes "scanBets w minSc m bets acc s = (Inr evs, s')"
    and "\<forall>e\<in>set acc. event_ok minSc e"
    and "\<forall>b\<in>set bets. usdc b \<ge> MIN_WHALE_BET"
  shows "\<forall>e\<in>set evs. event_ok minSc e"
  using assms
proof (induction bets arbitrary: acc s)
  case Nil
  then show ?case by simp
next
  case (Cons bet bets)
  obtain sc s1 where c: "calculateWhaleScore w (proxyWallet bet) s = (sc, s1)"
    by (cases "calculateWhaleScore w (proxyWallet bet) s")
  show ?case
  proof (cases "sc \<ge> minSc")
    case True
    with Cons.prems(1) c obtain scoreData where
      sd: "whaleScores s1 (proxyWallet bet) = Some scoreData"
      and rec: "scanBets w minSc m bets (acc @ [whaleEvent m bet sc scoreData]) s1 = (Inr evs, s')"
      by (auto split: option.splits)
    have "event_ok minSc (whaleEvent m bet sc scoreData)"
      using True Cons.prems(3) by (simp add: event_ok_def whaleEvent_def MIN_WHALE_BET_def)
    with Cons.prems(2) have "\<forall>e\<in>set (acc @ [whaleEvent m bet sc scoreData]). event_ok minSc e"
      by auto
    from Cons.IH[OF rec this] Cons.prems(3) show ?thesis by simp
  next
    case False
    with Cons.prems(1) c have rec: "scanBets w minSc m bets acc s1 = (Inr evs, s')"
      by simp
    from Cons.IH[OF rec Cons.prems(2)] Cons.prems(3) show ?thesis by simp
  qed
qed

lemma scanResults_ok:
  assumes "scanResults w minSc rs acc s = (Inr evs, s')"
    and "\<forall>e\<in>set acc. event_ok minSc e"
  shows "\<forall>e\<in>set evs. event_ok minSc e"
  using assms
proof (induction rs arbitrary: acc s)
  case Nil
  then show ?case by simp
next
  case (Cons r rs)
  obtain m activity where r: "r = (m, activity)" by (cases r)
  show ?case
  proof (cases activity)
    case None
    with Cons.prems r have "scanResults w minSc rs acc s = (Inr evs, s')" by simp
    from Cons.IH[OF this Cons.prems(2)] show ?thesis .
  next
    case (Some act)
    with Cons.prems(1) r obtain acc' s1 where
      b: "scanBets w minSc m (whaleBets act) acc s = (Inr acc', s1)"
      and rec: "scanResults w minSc rs acc' s1 = (Inr evs, s')"
      by (auto split: prod.splits sum.splits)
    have "\<forall>b\<in>set (whaleBets act). usdc b \<ge> MIN_WHALE_BET"
      by (simp add: whaleBets_def)
    from scanBets_ok[OF b Cons.prems(2) this] have "\<forall>e\<in>set acc'. event_ok minSc e" .
    from Cons.IH[OF rec this] show ?thesis .
  qed
qed

lemma scanBatches_ok:
  assumes "scanBatches w minSc ms acc s = (Inr evs, s')"
    and "\<forall>e\<in>set acc. event_ok minSc e"
  shows "\<forall>e\<in>set evs. event_ok minSc e"
  using assms
proof (induction w minSc ms acc s rule: scanBatches.induct)
  case (1 w minSc ms acc s)
  show ?case
  proof (cases "ms = []")
    case True
    with "1.prems" show ?thesis by (simp add: scanBatches.simps)
  next
    case False
    obtain br s1 where f: "fetchBatch w (take BATCH_SIZE ms) s = (br, s1)"
      by (cases "fetchBatch w (take BATCH_SIZE ms) s")
    from "1.prems"(1) False f obtain acc' s2 where
      r: "scanResults w minSc br acc s1 = (Inr acc', s2)"
      and rec: "scanBatches w minSc (drop BATCH_SIZE ms) acc' s2 = (Inr evs, s')"
      by (subst (asm) scanBatches.simps) (auto split: prod.splits sum.splits)
    from scanResults_ok[OF r "1.prems"(2)] have ok: "\<forall>e\<in>set acc'. event_ok minSc e" .
    from "1.IH"[OF False f[symmetric] refl r[symmetric] refl rec ok] show ?thesis .
  qed
qed

lemmas scan_defs = scanWhaleActivity_def allMarkets_def getMarketsByCategory_def
      scanBatches.simps BATCH_SIZE_def whaleBets_def MIN_WHALE_BET_def sort_cmp_def byScore_def

lemma demo_scan_from:
  assumes "tick s = n"
  shows "whaleScores s ''0xA'' = None \<Longrightarrow>
     scanWhaleActivity demo_world Null 75 s =
       (Inr [whaleEvent demo_market demo_trade 90
               (demo_record\<lparr>score_record.timestamp := 1700000000000 + int (n + 5)\<rparr>)],
        s\<lparr>tick := n + 6, whaleScores := (whaleScores s)(''0xA'' \<mapsto>
             demo_record\<lparr>score_record.timestamp := 1700000000000 + int (n + 5)\<rparr>)\<rparr>)"
    and "whaleScores s ''0xA'' = Some demo_record \<Longrightarrow> n < 200000 \<Longrightarrow>
     scanWhaleActivity demo_world Null 75 s
       = (Inr [whaleEvent demo_market demo_trade 90 demo_record], s\<lparr>tick := n + 6\<rparr>)"
proof -
  have m: "markets_at demo_world k None 100 = Some [demo_market]" for k
    by (simp add: demo_world_def)
  have a: "activity_at demo_world k (market_info.condition_id demo_market) = Some [demo_trade]" for k
    by (simp add: demo_world_def demo_market_def)
  show "whaleScores s ''0xA'' = None \<Longrightarrow>
     scanWhaleActivity demo_world Null 75 s =
       (Inr [whaleEvent demo_market demo_trade 90
               (demo_record\<lparr>score_record.timestamp := 1700000000000 + int (n + 5)\<rparr>)],
        s\<lparr>tick := n + 6, whaleScores := (whaleScores s)(''0xA'' \<mapsto>
             demo_record\<lparr>score_record.timestamp := 1700000000000 + int (n + 5)\<rparr>)\<rparr>)"
    using assms
    by (simp add: scan_defs m a demo_values demo_trade_fields demo_score_at)
  show "whaleScores s ''0xA'' = Some demo_record \<Longrightarrow> n < 200000 \<Longrightarrow>
     scanWhaleActivity demo_world Null 75 s
       = (Inr [whaleEvent demo_market demo_trade 90 demo_record], s\<lparr>tick := n + 6\<rparr>)"
    using assms
    by (simp add: scan_defs m a demo_values demo_trade_fields demo_score_cached)
qed

lemma demo_scan:
  "scanWhaleActivity demo_world Null 75 api_init =
     (Inr [demo_event], \<lparr> tick = 6, whaleScores = [''0xA'' \<mapsto> demo_record] \<rparr>)"
  using demo_scan_from(1)[of api_init 0]
  by (simp add: api_init_def demo_event_def demo_record_def whaleEvent_def)

lemma demo_event_fields:
  "betSize demo_event = 500000" "whaleScore demo_event = 90"
  "market demo_event = ''Will BTC hit 100k?''" "wallet demo_event = ''0xA''"
  by (simp_all add: demo_event_def whaleEvent_def demo_values demo_market_def demo_trade_fields)

text \<open>
  Claim C2. Every event that \<open>scanWhaleActivity\<close> returns has a bet size of at least
  \<open>MIN_WHALE_BET\<close>, which is 5000, and a whale score of at least the given minimum.
\<close>

theorem scanWhaleActivity_thresholds:
  assumes "scanWhaleActivity w categories minSc s = (Inr events, s')"
  shows "\<forall>e\<in>set events. betSize e \<ge> MIN_WHALE_BET \<and> whaleScore e \<ge> minSc"
proof -
  obtain ms s1 where a: "allMarkets w categories s = (ms, s1)"
    by (cases "allMarkets w categories s")
  with assms obtain acc where b: "scanBatches w minSc ms [] s1 = (Inr acc, s')"
    and e: "events = sort_cmp byScore acc"
    by (auto simp: scanWhaleActivity_def split: prod.splits sum.splits)
  from scanBatches_ok[OF b] have "\<forall>e\<in>set acc. event_ok minSc e" by simp
  then show ?thesis by (simp add: e set_sort_cmp event_ok_def)
qed

theorem scanWhaleActivity_thresholds_witness:
  "scanWhaleActivity demo_world Null 75 api_init =
     (Inr [demo_event], \<lparr> tick = 6, whaleScores = [''0xA'' \<mapsto> demo_record] \<rparr>)
   \<and> betSize demo_event \<ge> MIN_WHALE_BET \<and> whaleScore demo_event \<ge> 75"
  using scanWhaleActivity_thresholds[OF demo_scan] demo_scan
  by simp

section \<open>The scanner reads the cache record of a wallet only when there is one\<close>

lemma calculateWhaleScore_positive_cached:
  assumes "calculateWhaleScore w a s = (sc, s1)" and "sc \<noteq> 0"
  shows "whaleScores s1 a \<noteq> None"
proof (cases "cachedScore w a s")
  case (Some c)
  then have "whaleScores s a \<noteq> None"
    by (auto simp: cachedScore_def split: option.splits)
  with assms Some show ?thesis by (auto simp: calculateWhaleScore_cached)
next
  case None
  show ?thesis
  proof (cases "case history_at w (tick s + 1) a of None \<Rightarrow> True
         | Some history \<Rightarrow> filter (\<lambda>t. type t = ''TRADE'') history = []")
    case True
    from calculateWhaleScore_no_trades[OF None True] assms show ?thesis by simp
  next
    case False
    then obtain history where h: "history_at w (tick s + 1) a = Some history"
      and ne: "filter (\<lambda>t. type t = ''TRADE'') history \<noteq> []"
      by (auto split: option.splits)
    from calculateWhaleScore_full[OF None h ne] assms show ?thesis by auto
  qed
qed

lemma scanBets_no_error:
  assumes "1 \<le> minSc"
  shows "\<exists>evs. fst (scanBets w minSc m bets acc s) = Inr evs"
proof (induction bets arbitrary: acc s)
  case Nil
  show ?case by simp
next
  case (Cons bet bets)
  obtain sc s1 where c: "calculateWhaleScore w (proxyWallet bet) s = (sc, s1)"
    by (cases "calculateWhaleScore w (proxyWallet bet) s")
  show ?case
  proof (cases "sc \<ge> minSc")
    case True
    with assms have "sc \<noteq> 0" by simp
    from calculateWhaleScore_positive_cached[OF c this] obtain scoreData where
      "whaleScores s1 (proxyWallet bet) = Some scoreData" by auto
    with c True Cons.IH[of "acc @ [whaleEvent m bet sc scoreData]" s1] show ?thesis by simp
  next
    case False
    with c Cons.IH[of acc s1] show ?thesis by simp
  qed
qed

lemma scanResults_no_error:
  assumes "1 \<le> minSc"
  shows "\<exists>evs. fst (scanResults w minSc rs acc s) = Inr evs"
proof (induction rs arbitrary: acc s)
  case Nil
  show ?case by simp
next
  case (Cons r rs)
  obtain m activity where r: "r = (m, activity)" by (cases r)
  show ?case
  proof (cases activity)
    case None
    with r Cons.IH[of acc s] show ?thesis by simp
  next
    case (Some act)
    from scanBets_no_error[of minSc w m "whaleBets act" acc s, OF assms] obtain acc' s1 where
      "scanBets w minSc m (whaleBets act) acc s = (Inr acc', s1)"
      by (cases "scanBets w minSc m (whaleBets act) acc s") auto
    with r Some Cons.IH[of acc' s1] show ?thesis by simp
  qed
qed

lemma scanBatches_no_error:
  assumes "1 \<le> minSc"
  shows "\<exists>evs. fst (scanBatches w minSc ms acc s) = Inr evs"
  using assms
proof (induction w minSc ms acc s rule: scanBatches.induct)
  case (1 w minSc ms acc s)
  show ?case
  proof (cases "ms = []")
    case True
    then show ?thesis by (simp add: scanBatches.simps)
  next
    case False
    obtain br s1 where f: "fetchBatch w (take BATCH_SIZE ms) s = (br, s1)"
      by (cases "fetchBatch w (take BATCH_SIZE ms) s")
    from scanResults_no_error[of minSc w br acc s1, OF "1.prems"] obtain acc' s2 where
      r: "scanResults w minSc br acc s1 = (Inr acc', s2)"
      by (cases "scanResults w minSc br acc s1") auto
    from "1.IH"[OF False f[symmetric] refl r[symmetric] refl "1.prems"]
    obtain evs where "fst (scanBatches w minSc (drop BATCH_SIZE ms) acc' s2) = Inr evs" by auto
    with False f r show ?thesis
      by (subst scanBatches.simps) simp
  qed
qed

lemma scanWhaleActivity_no_error:
  assumes "1 \<le> minSc"
  shows "\<exists>events. fst (scanWhaleActivity w categories minSc s) = Inr events"
proof -
  obtain ms s1 where a: "allMarkets w categories s = (ms, s1)"
    by (cases "allMarkets w categories s")
  from scanBatches_no_error[of minSc w ms "[]" s1, OF assms] obtain acc s2 where
    "scanBatches w minSc ms [] s1 = (Inr acc, s2)"
    by (cases "scanBatches w minSc ms [] s1") auto
  with a show ?thesis by (simp add: scanWhaleActivity_def)
qed

lemma no_history_scan:
  "fst (scanWhaleActivity no_history_world Null 0 api_init) = Inl TypeError"
proof -
  have m: "markets_at no_history_world k None 100 = Some [demo_market]" for k
    by (simp add: no_history_world_def demo_world_def)
  have a: "activity_at no_history_world k (market_info.condition_id demo_market)
      = Some [demo_trade]" for k
    by (simp add: no_history_world_def demo_world_def demo_market_def)
  have c: "calculateWhaleScore no_history_world ''0xA'' s = (0, s\<lparr>tick := tick s + 4\<rparr>)"
    if "whaleScores s ''0xA'' = None" for s
    using that
    by (intro calculateWhaleScore_no_trades cachedScore_miss)
       (simp_all add: no_history_world_def)
  show ?thesis
    by (simp add: scan_defs m a c demo_values demo_trade_fields api_init_def)
qed

text \<open>
  Claim C10. With a minimum score of at least 1 the scan never reads the metrics of an
  absent cache record: it ends without the \<^verbatim>\<open>TypeError\<close> of that read, whatever the world
  and the cache are. The bound is needed: a wallet without history scores 0 and gets no
  record, and with the minimum 0 the scan of \<open>no_history_world\<close> ends in the
  \<^verbatim>\<open>TypeError\<close>.
\<close>

theorem scanWhaleActivity_metrics_read_safe:
  "(1 \<le> minSc \<longrightarrow> (\<exists>events. fst (scanWhaleActivity w categories minSc s) = Inr events))
   \<and> fst (scanWhaleActivity no_history_world Null 0 api_init) = Inl TypeError"
  using scanWhaleActivity_no_error[of minSc w categories s] no_history_scan by simp

theorem scanWhaleActivity_metrics_read_safe_witness:
  "(1::int) \<le> 75 \<and> fst (scanWhaleActivity demo_world Null 75 api_init) = Inr [demo_event]"
  using scanWhaleActivity_metrics_read_safe[of 75 demo_world Null api_init] demo_scan
  by simp

section \<open>The tracker: what each operation leaves unchanged\<close>

lemma logActivity_frame [simp]:
  "api (logActivity m t s) = api s"
  "monitors (logActivity m t s) = monitors s"
  "whaleData (logActivity m t s) = whaleData s"
  "lastScan (logActivity m t s) = lastScan s"
  "tracker.minScore (logActivity m t s) = tracker.minScore s"
  "tracker.autoTrade (logActivity m t s) = tracker.autoTrade s"
  "tracker.activeCategories (logActivity m t s) = tracker.activeCategories s"
  "storageAvailable (logActivity m t s) = storageAvailable s"
  "localStorage (logActivity m t s) = localStorage s"
  "intervals (logActivity m t s) = intervals s"
  "nextIntervalId (logActivity m t s) = nextIntervalId s"
  "resumeScheduled (logActivity m t s) = resumeScheduled s"
  by (simp_all add: logActivity_def)

lemma logActivity_page [simp]:
  "present (page (logActivity m t s)) = present (page s)"
  "whaleAlerts (page (logActivity m t s)) = whaleAlerts (page s)"
  "whaleAlertCount (page (logActivity m t s)) = whaleAlertCount (page s)"
  "whalesHtml (page (logActivity m t s)) = whalesHtml (page s)"
  "countText (page (logActivity m t s)) = countText (page s)"
  "scoreText (page (logActivity m t s)) = scoreText (page s)"
  "volumeText (page (logActivity m t s)) = volumeText (page s)"
  by (simp_all add: logActivity_def)

lemma renderTrackerWhales_frame [simp]:
  "api (renderTrackerWhales c ws s) = api s"
  "monitors (renderTrackerWhales c ws s) = monitors s"
  "whaleData (renderTrackerWhales c ws s) = whaleData s"
  "lastScan (renderTrackerWhales c ws s) = lastScan s"
  "tracker.minScore (renderTrackerWhales c ws s) = tracker.minScore s"
  "tracker.autoTrade (renderTrackerWhales c ws s) = tracker.autoTrade s"
  "tracker.activeCategories (renderTrackerWhales c ws s) = tracker.activeCategories s"
  "storageAvailable (renderTrackerWhales c ws s) = storageAvailable s"
  "localStorage (renderTrackerWhales c ws s) = localStorage s"
  "intervals (renderTrackerWhales c ws s) = intervals s"
  "nextIntervalId (renderTrackerWhales c ws s) = nextIntervalId s"
  "resumeScheduled (renderTrackerWhales c ws s) = resumeScheduled s"
  "present (page (renderTrackerWhales c ws s)) = present (page s)"
  "whaleAlerts (page (renderTrackerWhales c ws s)) = whaleAlerts (page s)"
  "whaleAlertCount (page (renderTrackerWhales c ws s)) = whaleAlertCount (page s)"
  "countText (page (renderTrackerWhales c ws s)) = countText (page s)"
  "scoreText (page (renderTrackerWhales c ws s)) = scoreText (page s)"
  "volumeText (page (renderTrackerWhales c ws s)) = volumeText (page s)"
  by (simp_all add: renderTrackerWhales_def)

lemma updateTrackerStats_frame [simp]:
  "api (updateTrackerStats c st s) = api s"
  "monitors (updateTrackerStats c st s) = monitors s"
  "whaleData (updateTrackerStats c st s) = whaleData s"
  "lastScan (updateTrackerStats c st s) = lastScan s"
  "tracker.minScore (updateTrackerStats c st s) = tracker.minScore s"
  "tracker.autoTrade (updateTrackerStats c st s) = tracker.autoTrade s"
  "tracker.activeCategories (updateTrackerStats c st s) = tracker.activeCategories s"
  "storageAvailable (updateTrackerStats c st s) = storageAvailable s"
  "localStorage (updateTrackerStats c st s) = localStorage s"
  "intervals (updateTrackerStats c st s) = intervals s"
  "nextIntervalId (updateTrackerStats c st s) = nextIntervalId s"
  "resumeScheduled (updateTrackerStats c st s) = resumeScheduled s"
  "present (page (updateTrackerStats c st s)) = present (page s)"
  "whaleAlerts (page (updateTrackerStats c st s)) = whaleAlerts (page s)"
  "whaleAlertCount (page (updateTrackerStats c st s)) = whaleAlertCount (page s)"
  "whalesHtml (page (updateTrackerStats c st s)) = whalesHtml (page s)"
  by (simp_all add: updateTrackerStats_def Let_def)

lemma updateTrackerUI_frame [simp]:
  "api (updateTrackerUI c b s) = api s"
  "monitors (updateTrackerUI c b s) = monitors s"
  "whaleData (updateTrackerUI c b s) = whaleData s"
  "lastScan (updateTrackerUI c b s) = lastScan s"
  "tracker.minScore (updateTrackerUI c b s) = tracker.minScore s"
  "tracker.autoTrade (updateTrackerUI c b s) = tracker.autoTrade s"
  "tracker.activeCategories (updateTrackerUI c b s) = tracker.activeCategories s"
  "storageAvailable (updateTrackerUI c b s) = storageAvailable s"
  "localStorage (updateTrackerUI c b s) = localStorage s"
  "intervals (updateTrackerUI c b s) = intervals s"
  "nextIntervalId (updateTrackerUI c b s) = nextIntervalId s"
  "resumeScheduled (updateTrackerUI c b s) = resumeScheduled s"
  "present (page (updateTrackerUI c b s)) = present (page s)"
  "whaleAlerts (page (updateTrackerUI c b s)) = whaleAlerts (page s)"
  "whaleAlertCount (page (updateTrackerUI c b s)) = whaleAlertCount (page s)"
  "countText (page (updateTrackerUI c b s)) = countText (page s)"
  "scoreText (page (updateTrackerUI c b s)) = scoreText (page s)"
  "volumeText (page (updateTrackerUI c b s)) = volumeText (page s)"
  by (simp_all add: updateTrackerUI_def)

lemma updateWhaleAlertFeed_frame [simp]:
  "api (updateWhaleAlertFeed c ws s) = api s"
  "monitors (updateWhaleAlertFeed c ws s) = monitors s"
  "whaleData (updateWhaleAlertFeed c ws s) = whaleData s"
  "lastScan (updateWhaleAlertFeed c ws s) = lastScan s"
  "tracker.minScore (updateWhaleAlertFeed c ws s) = tracker.minScore s"
  "tracker.autoTrade (updateWhaleAlertFeed c ws s) = tracker.autoTrade s"
  "tracker.activeCategories (updateWhaleAlertFeed c ws s) = tracker.activeCategories s"
  "storageAvailable (updateWhaleAlertFeed c ws s) = storageAvailable s"
  "localStorage (updateWhaleAlertFeed c ws s) = localStorage s"
  "intervals (updateWhaleAlertFeed c ws s) = intervals s"
  "nextIntervalId (updateWhaleAlertFeed c ws s) = nextIntervalId s"
  "resumeScheduled (updateWhaleAlertFeed c ws s) = resumeScheduled s"
  "present (page (updateWhaleAlertFeed c ws s)) = present (page s)"
  "countText (page (updateWhaleAlertFeed c ws s)) = countText (page s)"
  "scoreText (page (updateWhaleAlertFeed c ws s)) = scoreText (page s)"
  "volumeText (page (updateWhaleAlertFeed c ws s)) = volumeText (page s)"
  by (simp_all add: updateWhaleAlertFeed_def Let_def)

lemma saveState_frame [simp]:
  "api (saveState t s) = api s"
  "monitors (saveState t s) = monitors s"
  "whaleData (saveState t s) = whaleData s"
  "lastScan (saveState t s) = lastScan s"
  "tracker.minScore (saveState t s) = tracker.minScore s"
  "tracker.autoTrade (saveState t s) = tracker.autoTrade s"
  "tracker.activeCategories (saveState t s) = tracker.activeCategories s"
  "storageAvailable (saveState t s) = storageAvailable s"
  "intervals (saveState t s) = intervals s"
  "nextIntervalId (saveState t s) = nextIntervalId s"
  "resumeScheduled (saveState t s) = resumeScheduled s"
  "page (saveState t s) = page s"
  by (simp_all add: saveState_def)

lemma autoCopy_frame [simp]:
  "api (fold (\<lambda>whale. logActivity (f whale) t) ws s) = api s"
  "monitors (fold (\<lambda>whale. logActivity (f whale) t) ws s) = monitors s"
  "whaleData (fold (\<lambda>whale. logActivity (f whale) t) ws s) = whaleData s"
  "lastScan (fold (\<lambda>whale. logActivity (f whale) t) ws s) = lastScan s"
  "tracker.minScore (fold (\<lambda>whale. logActivity (f whale) t) ws s) = tracker.minScore s"
  "tracker.autoTrade (fold (\<lambda>whale. logActivity (f whale) t) ws s) = tracker.autoTrade s"
  "storageAvailable (fold (\<lambda>whale. logActivity (f whale) t) ws s) = storageAvailable s"
  "localStorage (fold (\<lambda>whale. logActivity (f whale) t) ws s) = localStorage s"
  "intervals (fold (\<lambda>whale. logActivity (f whale) t) ws s) = intervals s"
  "nextIntervalId (fold (\<lambda>whale. logActivity (f whale) t) ws s) = nextIntervalId s"
  "present (page (fold (\<lambda>whale. logActivity (f whale) t) ws s)) = present (page s)"
  "whaleAlerts (page (fold (\<lambda>whale. logActivity (f whale) t) ws s)) = whaleAlerts (page s)"
  "whaleAlertCount (page (fold (\<lambda>whale. logActivity (f whale) t) ws s)) = whaleAlertCount (page s)"
  by (induction ws arbitrary: s; simp)+

lemma countText_fold:
  "countText (page (fold (\<lambda>whale. logActivity (f whale) t) ws s)) = countText (page s)"
  "scoreText (page (fold (\<lambda>whale. logActivity (f whale) t) ws s)) = scoreText (page s)"
  "volumeText (page (fold (\<lambda>whale. logActivity (f whale) t) ws s)) = volumeText (page s)"
  by (induction ws arbitrary: s; simp)+

lemma scanTracker_finish_frame [simp]:
  "api (scanTracker_finish c p s) = api s"
  "monitors (scanTracker_finish c p s) = monitors s"
  "lastScan (scanTracker_finish c p s) = lastScan s"
  "tracker.minScore (scanTracker_finish c p s) = tracker.minScore s"
  "tracker.autoTrade (scanTracker_finish c p s) = tracker.autoTrade s"
  "storageAvailable (scanTracker_finish c p s) = storageAvailable s"
  "localStorage (scanTracker_finish c p s) = localStorage s"
  "intervals (scanTracker_finish c p s) = intervals s"
  "nextIntervalId (scanTracker_finish c p s) = nextIntervalId s"
  "present (page (scanTracker_finish c p s)) = present (page s)"
  by (simp_all add: scanTracker_finish_def Let_def split: sum.splits)

lemma scanTracker_finish_whaleData:
  "whaleData (scanTracker_finish c (cid, Inr found) s)
     = AList.update c (filterByKeywords c cid found) (whaleData s)"
  by (simp add: scanTracker_finish_def Let_def)

lemma scanTracker_finish_count:
  "present (page s) (StatCount c) \<Longrightarrow>
     countText (page (scanTracker_finish c (cid, Inr found) s)) c
       = Some (length (filterByKeywords c cid found))"
  by (simp add: scanTracker_finish_def Let_def updateTrackerStats_def updateWhaleAlertFeed_def
      calculateStats_def countText_fold)

lemma scanTracker_finish_score:
  "present (page s) (StatScore c) \<Longrightarrow>
     scoreText (page (scanTracker_finish c (cid, Inr found) s)) c
       = Some (if avgScore (calculateStats (filterByKeywords c cid found)) = 0 then None
               else Some (avgScore (calculateStats (filterByKeywords c cid found))))"
  by (simp add: scanTracker_finish_def Let_def updateTrackerStats_def countText_fold)

lemma scanTracker_finish_volume:
  "present (page s) (StatVolume c) \<Longrightarrow>
     volumeText (page (scanTracker_finish c (cid, Inr found) s)) c
       = Some (if volume (calculateStats (filterByKeywords c cid found)) > 0
               then Some (round (fdiv (volume (calculateStats (filterByKeywords c cid found))) 1000))
               else None)"
  by (simp add: scanTracker_finish_def Let_def updateTrackerStats_def countText_fold)

text \<open>The second part of a scan does not read \<open>monitors\<close>.\<close>

lemma logActivity_monitors:
  "logActivity msg t (s\<lparr>monitors := m\<rparr>) = (logActivity msg t s)\<lparr>monitors := m\<rparr>"
  by (simp add: logActivity_def)

lemma fold_logActivity_monitors:
  "fold (\<lambda>whale. logActivity (f whale) t) ws (s\<lparr>monitors := m\<rparr>)
     = (fold (\<lambda>whale. logActivity (f whale) t) ws s)\<lparr>monitors := m\<rparr>"
  by (induction ws arbitrary: s) (simp_all add: logActivity_monitors)

lemma renderTrackerWhales_monitors:
  "renderTrackerWhales c ws (s\<lparr>monitors := m\<rparr>) = (renderTrackerWhales c ws s)\<lparr>monitors := m\<rparr>"
  by (simp add: renderTrackerWhales_def)

lemma updateTrackerStats_monitors:
  "updateTrackerStats c st (s\<lparr>monitors := m\<rparr>) = (updateTrackerStats c st s)\<lparr>monitors := m\<rparr>"
  by (simp add: updateTrackerStats_def Let_def)

lemma updateWhaleAlertFeed_monitors:
  "updateWhaleAlertFeed c ws (s\<lparr>monitors := m\<rparr>) = (updateWhaleAlertFeed c ws s)\<lparr>monitors := m\<rparr>"
  by (simp add: updateWhaleAlertFeed_def Let_def)

lemma whaleData_monitors:
  "s\<lparr>monitors := m\<rparr>\<lparr>whaleData := wd\<rparr> = s\<lparr>whaleData := wd\<rparr>\<lparr>monitors := m\<rparr>"
  by simp

lemma scanTracker_finish_monitors:
  "scanTracker_finish c p (s\<lparr>monitors := m\<rparr>) = (scanTracker_finish c p s)\<lparr>monitors := m\<rparr>"
proof (cases "snd p")
  case (Inl e)
  then show ?thesis by (simp add: scanTracker_finish_def logActivity_monitors)
next
  case (Inr found)
  define ws where "ws = filterByKeywords c (fst p) found"
  define hs where "hs = filter (\<lambda>w. whaleScore w \<ge> 85) ws"
  define s4 where "s4 = updateWhaleAlertFeed c ws (updateTrackerStats c (calculateStats ws)
     (renderTrackerWhales c ws (s\<lparr>whaleData := AList.update c ws (whaleData s)\<rparr>)))"
  define s5 where "s5 = logActivity (HighScoreWhales (length hs) c) LogWhale s4"
  define t where "t = (if length hs > 0 then
       if tracker.autoTrade s5
       then fold (\<lambda>whale. logActivity
                     (AutoCopying (formatWallet (wallet whale)) (whaleScore whale))
                     LogSuccess) hs s5
       else s5
     else s4)"
  have a: "scanTracker_finish c p s = t"
    unfolding t_def s5_def s4_def hs_def ws_def
    by (simp only: scanTracker_finish_def Inr sum.case Let_def)
  have s4m: "updateWhaleAlertFeed c ws (updateTrackerStats c (calculateStats ws)
     (renderTrackerWhales c ws
        (s\<lparr>monitors := m\<rparr>\<lparr>whaleData := AList.update c ws (whaleData (s\<lparr>monitors := m\<rparr>))\<rparr>)))
      = s4\<lparr>monitors := m\<rparr>"
    unfolding s4_def
    by (simp only: whaleData_monitors renderTrackerWhales_monitors updateTrackerStats_monitors
        updateWhaleAlertFeed_monitors)
       simp
  have b: "scanTracker_finish c p (s\<lparr>monitors := m\<rparr>) =
     (if length hs > 0 then
       if tracker.autoTrade (logActivity (HighScoreWhales (length hs) c) LogWhale (s4\<lparr>monitors := m\<rparr>))
       then fold (\<lambda>whale. logActivity
                     (AutoCopying (formatWallet (wallet whale)) (whaleScore whale))
                     LogSuccess) hs (logActivity (HighScoreWhales (length hs) c) LogWhale (s4\<lparr>monitors := m\<rparr>))
       else logActivity (HighScoreWhales (length hs) c) LogWhale (s4\<lparr>monitors := m\<rparr>)
     else s4\<lparr>monitors := m\<rparr>)"
    unfolding s4m[symmetric] hs_def ws_def
    by (simp only: scanTracker_finish_def Inr sum.case Let_def)
  have c: "logActivity (HighScoreWhales (length hs) c) LogWhale (s4\<lparr>monitors := m\<rparr>)
      = s5\<lparr>monitors := m\<rparr>"
    by (simp only: s5_def logActivity_monitors)
  show ?thesis
    unfolding a b c t_def
    by (simp add: fold_logActivity_monitors)
qed
lemma scanTracker_begin_frame [simp]:
  "monitors (snd (scanTracker_begin w now c s)) = monitors s"
  "whaleData (snd (scanTracker_begin w now c s)) = whaleData s"
  "tracker.minScore (snd (scanTracker_begin w now c s)) = tracker.minScore s"
  "tracker.autoTrade (snd (scanTracker_begin w now c s)) = tracker.autoTrade s"
  "storageAvailable (snd (scanTracker_begin w now c s)) = storageAvailable s"
  "localStorage (snd (scanTracker_begin w now c s)) = localStorage s"
  "intervals (snd (scanTracker_begin w now c s)) = intervals s"
  "nextIntervalId (snd (scanTracker_begin w now c s)) = nextIntervalId s"
  "present (page (snd (scanTracker_begin w now c s))) = present (page s)"
  by (simp_all add: scanTracker_begin_def Let_def split: option.splits prod.splits)

lemma scanTracker_frame [simp]:
  "monitors (scanTracker w now c s) = monitors s"
  "tracker.minScore (scanTracker w now c s) = tracker.minScore s"
  "tracker.autoTrade (scanTracker w now c s) = tracker.autoTrade s"
  "storageAvailable (scanTracker w now c s) = storageAvailable s"
  "localStorage (scanTracker w now c s) = localStorage s"
  "intervals (scanTracker w now c s) = intervals s"
  "nextIntervalId (scanTracker w now c s) = nextIntervalId s"
  "present (page (scanTracker w now c s)) = present (page s)"
proof -
  obtain r s1 where b: "scanTracker_begin w now c s = (r, s1)"
    by (cases "scanTracker_begin w now c s")
  have f: "monitors s1 = monitors s" "tracker.minScore s1 = tracker.minScore s"
    "tracker.autoTrade s1 = tracker.autoTrade s" "storageAvailable s1 = storageAvailable s"
    "localStorage s1 = localStorage s" "intervals s1 = intervals s"
    "nextIntervalId s1 = nextIntervalId s" "present (page s1) = present (page s)"
    using scanTracker_begin_frame[of w now c s] by (simp_all add: b)
  have e: "scanTracker w now c s
      = (case r of None \<Rightarrow> s1 | Some pending \<Rightarrow> scanTracker_finish c pending s1)"
    by (simp add: scanTracker_def b)
  show "monitors (scanTracker w now c s) = monitors s"
    "tracker.minScore (scanTracker w now c s) = tracker.minScore s"
    "tracker.autoTrade (scanTracker w now c s) = tracker.autoTrade s"
    "storageAvailable (scanTracker w now c s) = storageAvailable s"
    "localStorage (scanTracker w now c s) = localStorage s"
    "intervals (scanTracker w now c s) = intervals s"
    "nextIntervalId (scanTracker w now c s) = nextIntervalId s"
    "present (page (scanTracker w now c s)) = present (page s)"
    by (cases r; simp add: e f)+
qed

lemma autoResumeMonitors_frame [simp]:
  "tracker.minScore (autoResumeMonitors s) = tracker.minScore s"
  "tracker.autoTrade (autoResumeMonitors s) = tracker.autoTrade s"
  "tracker.activeCategories (autoResumeMonitors s) = tracker.activeCategories s"
  by (simp_all add: autoResumeMonitors_def split: option.splits)

lemma has_update [simp]: "has (AList.update k v m) k"
  by (simp add: has_def update_conv')

lemma has_delete [simp]: "\<not> has (AList.delete k m) k"
  by (simp add: has_def delete_conv')

lemma stopTracker_stopped:
  "\<not> has (monitors (stopTracker nowSave c s)) c"
  by (auto simp: stopTracker_def Let_def has_def delete_conv' split: option.splits)

lemma stopTracker_whaleData:
  "has (monitors s) c \<Longrightarrow> map_of (whaleData (stopTracker nowSave c s)) c = None"
  by (auto simp: stopTracker_def Let_def has_def delete_conv' split: option.splits)

lemma stopTracker_present [simp]:
  "present (page (stopTracker nowSave c s)) = present (page s)"
  by (simp add: stopTracker_def Let_def split: option.splits)

lemma stopTracker_count:
  "has (monitors s) c \<Longrightarrow> present (page s) (StatCount c) \<Longrightarrow>
     countText (page (stopTracker nowSave c s)) c = Some 0"
  "has (monitors s) c \<Longrightarrow> present (page s) (StatScore c) \<Longrightarrow>
     scoreText (page (stopTracker nowSave c s)) c = Some None"
  "has (monitors s) c \<Longrightarrow> present (page s) (StatVolume c) \<Longrightarrow>
     volumeText (page (stopTracker nowSave c s)) c = Some None"
  by (auto simp: stopTracker_def Let_def has_def updateTrackerStats_def split: option.splits)

lemma stopTracker_frame [simp]:
  "api (stopTracker nowSave c s) = api s"
  "lastScan (stopTracker nowSave c s) = lastScan s"
  "tracker.minScore (stopTracker nowSave c s) = tracker.minScore s"
  "tracker.autoTrade (stopTracker nowSave c s) = tracker.autoTrade s"
  "storageAvailable (stopTracker nowSave c s) = storageAvailable s"
  by (simp_all add: stopTracker_def Let_def split: option.splits)

lemma stopTracker_intervals:
  "map_of (monitors s) c = Some i \<Longrightarrow>
     intervals (stopTracker nowSave c s) = filter (\<lambda>(j, c'). j \<noteq> i) (intervals s)"
  by (simp add: stopTracker_def Let_def)

lemma stopTracker_timer:
  "map_of (monitors s) c = Some i \<Longrightarrow> map_of (intervals (stopTracker nowSave c s)) i = None"
  by (auto simp: stopTracker_intervals map_of_eq_None_iff)

lemma startTracker_finish_frame [simp]:
  "api (startTracker_finish nowSave c s) = api s"
  "whaleData (startTracker_finish nowSave c s) = whaleData s"
  "lastScan (startTracker_finish nowSave c s) = lastScan s"
  "tracker.minScore (startTracker_finish nowSave c s) = tracker.minScore s"
  "tracker.autoTrade (startTracker_finish nowSave c s) = tracker.autoTrade s"
  "storageAvailable (startTracker_finish nowSave c s) = storageAvailable s"
  "present (page (startTracker_finish nowSave c s)) = present (page s)"
  "monitors (startTracker_finish nowSave c s) = AList.update c (nextIntervalId s) (monitors s)"
  "intervals (startTracker_finish nowSave c s) = intervals s @ [(nextIntervalId s, c)]"
  by (simp_all add: startTracker_finish_def Let_def)

lemma startTracker_frame [simp]:
  "tracker.minScore (startTracker w now nowSave c s) = tracker.minScore s"
  "tracker.autoTrade (startTracker w now nowSave c s) = tracker.autoTrade s"
  "storageAvailable (startTracker w now nowSave c s) = storageAvailable s"
  "present (page (startTracker w now nowSave c s)) = present (page s)"
  by (simp_all add: startTracker_def Let_def)

lemma intervalFires_frame [simp]:
  "tracker.minScore (intervalFires w now i s) = tracker.minScore s"
  "tracker.autoTrade (intervalFires w now i s) = tracker.autoTrade s"
  by (simp_all add: intervalFires_def split: option.splits)

section \<open>A scan, throttled or not\<close>

lemma scanTracker_begin_throttled:
  "now - (case map_of (lastScan s) cat of None \<Rightarrow> 0 | Some t \<Rightarrow> t) < 5000
    \<Longrightarrow> scanTracker_begin w now cat s = (None, s)"
  by (simp add: scanTracker_begin_def)

lemma scanTracker_begin_lastScan:
  "\<not> now - (case map_of (lastScan s) cat of None \<Rightarrow> 0 | Some t \<Rightarrow> t) < 5000
    \<Longrightarrow> lastScan (snd (scanTracker_begin w now cat s)) = AList.update cat now (lastScan s)"
  by (simp add: scanTracker_begin_def Let_def split: option.splits prod.splits)

lemma scanTracker_lastScan:
  "\<not> now - (case map_of (lastScan s) cat of None \<Rightarrow> 0 | Some t \<Rightarrow> t) < 5000
    \<Longrightarrow> lastScan (scanTracker w now cat s) = AList.update cat now (lastScan s)"
  using scanTracker_begin_lastScan[of now s cat w]
  by (auto simp: scanTracker_def split: prod.splits option.splits)

lemma scanTracker_throttled:
  "now - (case map_of (lastScan s) cat of None \<Rightarrow> 0 | Some t \<Rightarrow> t) < 5000
    \<Longrightarrow> scanTracker w now cat s = s"
  by (simp add: scanTracker_def scanTracker_begin_throttled)

lemma scanTracker_api:
  assumes "\<not> now - (case map_of (lastScan s) cat of None \<Rightarrow> 0 | Some t \<Rightarrow> t) < 5000"
    and "api s = Some a"
  shows "api (scanTracker w now cat s)
     = Some (snd (scanWhaleActivity w (categoriesArg (TRACKER_CATEGORIES cat)) (tracker.minScore s) a))"
  using assms
  by (simp add: scanTracker_def scanTracker_begin_def Let_def split: prod.splits)

text \<open>
  For the six categories, and for every name that is not inherited from
  \<^verbatim>\<open>Object.prototype\<close>, the scan of the API is the one of all markets.
\<close>

lemma categoriesArg_tracker:
  "cat \<notin> set objectPrototypeNames \<Longrightarrow> categoriesArg (TRACKER_CATEGORIES cat) = Null"
  by (simp add: categoriesArg_def TRACKER_CATEGORIES_def)

lemma crypto_id: "TRACKER_CATEGORIES ''crypto'' = IdNull"
  "categoriesArg (TRACKER_CATEGORIES ''crypto'') = Null"
  "categoriesArg IdNull = Null"
  by (simp_all add: TRACKER_CATEGORIES_def categoryNames_def categoriesArg_def)

lemma scanTracker_scan:
  assumes "\<not> now - (case map_of (lastScan s) cat of None \<Rightarrow> 0 | Some t \<Rightarrow> t) < 5000"
    and "api s = Some a"
    and "scanWhaleActivity w (categoriesArg (TRACKER_CATEGORIES cat)) (tracker.minScore s) a
           = (res, a')"
  shows "scanTracker w now cat s
     = scanTracker_finish cat (TRACKER_CATEGORIES cat, res)
         (s\<lparr>lastScan := AList.update cat now (lastScan s), api := Some a'\<rparr>)"
  using assms
  by (simp add: scanTracker_def scanTracker_begin_def Let_def)

section \<open>The example run\<close>

lemma tracker0_eval:
  "tracker0 = \<lparr> api = Some api_init, monitors = [], whaleData = [], lastScan = [],
         tracker.minScore = 75, tracker.autoTrade = False, tracker.activeCategories = None,
         storageAvailable = True, localStorage = NoItem,
         intervals = [], nextIntervalId = 1, resumeScheduled = False, page = demo_page \<rparr>"
  by (simp add: tracker0_def constructor_def loadState_def autoResumeMonitors_def)

lemma demo_rescan:
  "scanWhaleActivity demo_world Null 75 \<lparr> tick = 6, whaleScores = [''0xA'' \<mapsto> demo_record] \<rparr> =
     (Inr [demo_event], \<lparr> tick = 12, whaleScores = [''0xA'' \<mapsto> demo_record] \<rparr>)"
  using demo_scan_from(2)[of "\<lparr> tick = 6, whaleScores = [''0xA'' \<mapsto> demo_record] \<rparr>" 6]
  by (simp add: demo_event_def)

lemma market_keywords:
  "list_ex (\<lambda>keyword. str_includes (toLowerCase ''Will BTC hit 100k?'') (toLowerCase keyword))
     [''bitcoin'', ''ethereum'', ''crypto'', ''btc'', ''eth'', ''blockchain'', ''defi'',
      ''nft'', ''token'', ''coin'', ''solana'', ''binance'', ''coinbase'']"
  "list_ex (\<lambda>keyword. str_includes (toLowerCase ''NBA finals: game 7'') (toLowerCase keyword))
     [''nfl'', ''nba'', ''mlb'', ''nhl'', ''soccer'', ''football'', ''basketball'',
      ''baseball'', ''hockey'', ''championship'', ''super bowl'', ''world cup'',
      ''olympics'', ''team'', ''player'', ''game'']"
  by code_simp+

lemma crypto_keywords:
  assumes "list_all (\<lambda>e. market e = ''Will BTC hit 100k?'') found"
  shows "filterByKeywords ''crypto'' IdNull found = found"
proof -
  have "filter (\<lambda>whale. list_ex (\<lambda>keyword. str_includes (toLowerCase (market whale))
            (toLowerCase keyword))
     [''bitcoin'', ''ethereum'', ''crypto'', ''btc'', ''eth'', ''blockchain'', ''defi'',
      ''nft'', ''token'', ''coin'', ''solana'', ''binance'', ''coinbase'']) found = found"
    using assms market_keywords(1) by (induction found) simp_all
  then show ?thesis
    by (simp add: filterByKeywords_def CATEGORY_KEYWORDS_def keywordFilter_def)
qed

lemma demo_keywords: "filterByKeywords ''crypto'' IdNull [demo_event] = [demo_event]"
  by (rule crypto_keywords) (simp add: demo_event_fields)

lemma running_fields:
  "monitors running = [(''crypto'', 1)]"
  "lastScan running = [(''crypto'', 1700000000000)]"
  "api running = Some \<lparr> tick = 6, whaleScores = [''0xA'' \<mapsto> demo_record] \<rparr>"
  "tracker.minScore running = 75"
  "storageAvailable running"
  "present (page running) = (\<lambda>e. True)"
  "intervals running = [(1, ''crypto'')]"
proof -
  have nh: "\<not> has (monitors tracker0) ''crypto''"
    by (simp add: tracker0_eval has_def)
  have l: "lastScan (logActivity (Started ''crypto'') LogInfo tracker0) = lastScan tracker0"
    "api (logActivity (Started ''crypto'') LogInfo tracker0) = api tracker0"
    by simp_all
  show "monitors running = [(''crypto'', 1)]" "intervals running = [(1, ''crypto'')]"
    using nh by (simp_all add: running_def startTracker_def Let_def tracker0_eval)
  show "tracker.minScore running = 75" "storageAvailable running"
    "present (page running) = (\<lambda>e. True)"
    using nh by (simp_all add: running_def tracker0_eval demo_page_def)
  have nt: "\<not> 1700000000000 - (case map_of (lastScan (logActivity (Started ''crypto'') LogInfo tracker0)) ''crypto''
               of None \<Rightarrow> 0 | Some t \<Rightarrow> t) < (5000::int)"
    by (simp add: tracker0_eval)
  show "lastScan running = [(''crypto'', 1700000000000)]"
    using nh scanTracker_lastScan[OF nt, of demo_world]
    by (simp add: running_def startTracker_def Let_def tracker0_eval)
  have "api (logActivity (Started ''crypto'') LogInfo tracker0) = Some api_init"
    by (simp add: tracker0_eval)
  from scanTracker_api[OF nt this, of demo_world]
  show "api running = Some \<lparr> tick = 6, whaleScores = [''0xA'' \<mapsto> demo_record] \<rparr>"
    using nh by (simp add: running_def startTracker_def Let_def crypto_id tracker0_eval demo_scan)
qed

lemma running_whaleData: "whaleData running = [(''crypto'', [demo_event])]"
proof -
  let ?s1 = "logActivity (Started ''crypto'') LogInfo tracker0"
  have nt: "\<not> 1700000000000 - (case map_of (lastScan ?s1) ''crypto''
               of None \<Rightarrow> 0 | Some t \<Rightarrow> t) < (5000::int)"
    by (simp add: tracker0_eval)
  have a: "api ?s1 = Some api_init" and m: "tracker.minScore ?s1 = 75"
    and wd: "whaleData ?s1 = []"
    by (simp_all add: tracker0_eval)
  have sc: "scanWhaleActivity demo_world (categoriesArg (TRACKER_CATEGORIES ''crypto''))
       (tracker.minScore ?s1) api_init =
     (Inr [demo_event], \<lparr> tick = 6, whaleScores = [''0xA'' \<mapsto> demo_record] \<rparr>)"
    by (simp add: tracker0_eval demo_scan crypto_id)
  have "whaleData (scanTracker demo_world 1700000000000 ''crypto'' ?s1) = [(''crypto'', [demo_event])]"
    unfolding scanTracker_scan[OF nt a sc] crypto_id
    by (simp add: scanTracker_finish_whaleData demo_keywords tracker0_eval)
  moreover have "\<not> has (monitors tracker0) ''crypto''"
    by (simp add: tracker0_eval has_def)
  ultimately show ?thesis
    by (simp add: running_def startTracker_def Let_def)
qed

lemma inflight_eval: "fst inflight = Some (IdNull, Inr [demo_event])"
  by (simp add: inflight_def scanTracker_begin_def running_fields Let_def demo_rescan crypto_id)

lemma inflight_fields:
  "monitors (snd inflight) = [(''crypto'', 1)]"
  "whaleData (snd inflight) = [(''crypto'', [demo_event])]"
  "present (page (snd inflight)) = (\<lambda>e. True)"
  "intervals (snd inflight) = [(1, ''crypto'')]"
  by (simp_all add: inflight_def running_fields running_whaleData)

lemma landed_eq: "landed = scanTracker_finish ''crypto'' (IdNull, Inr [demo_event]) stopped"
  by (simp add: landed_def inflight_eval)

section \<open>Throttled scans and repeated starts\<close>

text \<open>
  Claim C9. Of two calls of \<open>scanTracker\<close> for one category, the second less than 5000 ms
  after the first, at most one starts a scan of the API. When the first call has scanned
  (it was not throttled itself), the second call returns the state as it is: whale data,
  page, last-scan time and the state of the API, so that it makes no fetch; that holds
  after the first scan has finished and while it is still under way. With an API object,
  the state of the API after both calls is the one that the single run of
  \<open>scanWhaleActivity\<close> by the first call left; its argument is the category's entry in
  \<^verbatim>\<open>TRACKER_CATEGORIES\<close>, which is \<^verbatim>\<open>null\<close> for each of the six categories.
\<close>

theorem scanTracker_throttle:
  assumes within: "now2 - now1 < 5000"
  shows "(fst (scanTracker_begin w now1 cat s) = None
          \<or> fst (scanTracker_begin w now2 cat (scanTracker w now1 cat s)) = None)
     \<and> (now1 - (case map_of (lastScan s) cat of None \<Rightarrow> 0 | Some t \<Rightarrow> t) \<ge> 5000 \<longrightarrow>
          scanTracker w now2 cat (scanTracker w now1 cat s) = scanTracker w now1 cat s
          \<and> scanTracker_begin w now2 cat (snd (scanTracker_begin w now1 cat s))
               = (None, snd (scanTracker_begin w now1 cat s))
          \<and> (\<forall>a. api s = Some a \<longrightarrow>
                api (scanTracker w now1 cat s)
                  = Some (snd (scanWhaleActivity w (categoriesArg (TRACKER_CATEGORIES cat))
                                 (tracker.minScore s) a))
                \<and> api (scanTracker w now2 cat (scanTracker w now1 cat s))
                  = Some (snd (scanWhaleActivity w (categoriesArg (TRACKER_CATEGORIES cat))
                                 (tracker.minScore s) a))))
     \<and> (cat \<notin> set objectPrototypeNames \<longrightarrow> categoriesArg (TRACKER_CATEGORIES cat) = Null)"
proof (cases "now1 - (case map_of (lastScan s) cat of None \<Rightarrow> 0 | Some t \<Rightarrow> t) < 5000")
  case True
  then show ?thesis by (simp add: scanTracker_begin_throttled categoriesArg_tracker)
next
  case nt: False
  let ?s1 = "scanTracker w now1 cat s"
  let ?b1 = "snd (scanTracker_begin w now1 cat s)"
  have "map_of (lastScan ?s1) cat = Some now1"
    by (simp add: scanTracker_lastScan[OF nt] update_conv')
  with within have t1: "now2 - (case map_of (lastScan ?s1) cat of None \<Rightarrow> 0 | Some t \<Rightarrow> t) < 5000"
    by simp
  have "map_of (lastScan ?b1) cat = Some now1"
    by (simp add: scanTracker_begin_lastScan[OF nt] update_conv')
  with within have t2: "now2 - (case map_of (lastScan ?b1) cat of None \<Rightarrow> 0 | Some t \<Rightarrow> t) < 5000"
    by simp
  have same: "scanTracker w now2 cat ?s1 = ?s1"
    using t1 by (rule scanTracker_throttled)
  have "\<forall>a. api s = Some a \<longrightarrow>
           api ?s1 = Some (snd (scanWhaleActivity w (categoriesArg (TRACKER_CATEGORIES cat))
                                  (tracker.minScore s) a))"
    using scanTracker_api[OF nt] by simp
  with same scanTracker_begin_throttled[OF t1] scanTracker_begin_throttled[OF t2]
  show ?thesis by (simp add: categoriesArg_tracker)
qed

theorem scanTracker_throttle_witness:
  "(1700000003000::int) - 1700000000000 < 5000
   \<and> (1700000000000::int) - (case map_of (lastScan tracker0) ''crypto'' of None \<Rightarrow> 0 | Some t \<Rightarrow> t)
      \<ge> 5000
   \<and> fst (scanTracker_begin demo_world 1700000003000 ''crypto''
        (scanTracker demo_world 1700000000000 ''crypto'' tracker0)) = None
   \<and> scanTracker demo_world 1700000003000 ''crypto''
        (scanTracker demo_world 1700000000000 ''crypto'' tracker0)
      = scanTracker demo_world 1700000000000 ''crypto'' tracker0
   \<and> api (scanTracker demo_world 1700000003000 ''crypto''
        (scanTracker demo_world 1700000000000 ''crypto'' tracker0))
      = Some \<lparr> tick = 6, whaleScores = [''0xA'' \<mapsto> demo_record] \<rparr>"
proof -
  have h1: "(1700000000000::int)
      - (case map_of (lastScan tracker0) ''crypto'' of None \<Rightarrow> 0 | Some t \<Rightarrow> t) \<ge> 5000"
    by (simp add: tracker0_eval)
  have h2: "(1700000003000::int) - 1700000000000 < 5000" by simp
  have a: "api tracker0 = Some api_init" "tracker.minScore tracker0 = 75"
    by (simp_all add: tracker0_eval)
  have b: "fst (scanTracker_begin demo_world 1700000000000 ''crypto'' tracker0) \<noteq> None"
    by (simp add: scanTracker_begin_def tracker0_eval Let_def split: prod.splits)
  from scanTracker_throttle[OF h2, of demo_world "''crypto''" tracker0] h1 a b
  show ?thesis by (simp add: demo_scan crypto_id)
qed

text \<open>
  Claim C8. \<open>startTracker\<close> on a category that is in \<open>monitors\<close> returns the state
  unchanged: no timer is added, no scan is made, and monitors, whale data and the stored
  item stay as they are.
\<close>

theorem startTracker_running_noop:
  assumes "has (monitors s) cat"
  shows "startTracker w now nowSave cat s = s
     \<and> intervals (startTracker w now nowSave cat s) = intervals s
     \<and> api (startTracker w now nowSave cat s) = api s
     \<and> monitors (startTracker w now nowSave cat s) = monitors s
     \<and> whaleData (startTracker w now nowSave cat s) = whaleData s
     \<and> localStorage (startTracker w now nowSave cat s) = localStorage s"
  using assms by (simp add: startTracker_def)

theorem startTracker_running_noop_witness:
  "has (monitors running) ''crypto''
   \<and> startTracker demo_world 1700000050000 1700000051000 ''crypto'' running = running
   \<and> intervals (startTracker demo_world 1700000050000 1700000051000 ''crypto'' running)
        = intervals running"
proof -
  have h: "has (monitors running) ''crypto''"
    by (simp add: running_fields has_def)
  from startTracker_running_noop[OF h, of demo_world 1700000050000 1700000051000] h
  show ?thesis by simp
qed

section \<open>The alert feed\<close>

lemma byScoreThenTime_le: "byScoreThenTime a b \<le> 0 \<longleftrightarrow> feed_order a b"
  by (auto simp: byScoreThenTime_def feed_order_def)

lemma feed_order_total: "feed_order a b \<or> feed_order b a"
  by (auto simp: feed_order_def)

lemma feed_order_trans: "feed_order a b \<Longrightarrow> feed_order b c \<Longrightarrow> feed_order a c"
  by (auto simp: feed_order_def)

lemma mset_insort_cmp: "mset (insort_cmp cmp x xs) = add_mset x (mset xs)"
  by (induction xs) auto

lemma mset_sort_cmp: "mset (sort_cmp cmp xs) = mset xs"
  by (induction xs) (auto simp: sort_cmp_def mset_insort_cmp)

lemma sorted_insort_feed:
  "sorted_wrt feed_order xs \<Longrightarrow> sorted_wrt feed_order (insort_cmp byScoreThenTime x xs)"
proof (induction xs)
  case Nil
  show ?case by simp
next
  case (Cons y ys)
  show ?case
  proof (cases "byScoreThenTime x y \<le> 0")
    case True
    then have xy: "feed_order x y" by (simp add: byScoreThenTime_le)
    with Cons.prems have "\<forall>z\<in>set ys. feed_order x z"
      by (auto intro: feed_order_trans)
    with True xy Cons.prems show ?thesis by simp
  next
    case False
    then have "\<not> feed_order x y" by (simp add: byScoreThenTime_le)
    with feed_order_total[of x y] have "feed_order y x" by simp
    with False Cons show ?thesis by (auto simp: set_insort_cmp)
  qed
qed

lemma sorted_sort_feed: "sorted_wrt feed_order (sort_cmp byScoreThenTime xs)"
proof (induction xs)
  case Nil
  show ?case by (simp add: sort_cmp_def)
next
  case (Cons x xs)
  have "sort_cmp byScoreThenTime (x # xs)
          = insort_cmp byScoreThenTime x (sort_cmp byScoreThenTime xs)"
    by (simp add: sort_cmp_def)
  with Cons sorted_insort_feed show ?case by simp
qed

lemma updateWhaleAlertFeed_alerts:
  assumes "present (page s) WhaleAlertsContainer" and "present (page s) WhaleAlertCount"
  shows "whaleAlerts (page (updateWhaleAlertFeed c ws s))
           = take 20 (sort_cmp byScoreThenTime (allWhales (whaleData s)))"
    and "whaleAlertCount (page (updateWhaleAlertFeed c ws s)) = length (allWhales (whaleData s))"
proof -
  have len: "length (sort_cmp byScoreThenTime (allWhales (whaleData s)))
      = length (allWhales (whaleData s))"
    using mset_sort_cmp[of byScoreThenTime "allWhales (whaleData s)"] by (metis size_mset)
  show "whaleAlerts (page (updateWhaleAlertFeed c ws s))
           = take 20 (sort_cmp byScoreThenTime (allWhales (whaleData s)))"
    using assms by (simp add: updateWhaleAlertFeed_def Let_def)
  show "whaleAlertCount (page (updateWhaleAlertFeed c ws s)) = length (allWhales (whaleData s))"
    using assms len by (simp add: updateWhaleAlertFeed_def Let_def)
qed

lemma scanTracker_finish_alerts:
  assumes "present (page s) WhaleAlertsContainer" and "present (page s) WhaleAlertCount"
  shows "whaleAlerts (page (scanTracker_finish c (cid, Inr found) s))
           = take 20 (sort_cmp byScoreThenTime
               (allWhales (AList.update c (filterByKeywords c cid found) (whaleData s))))"
    and "whaleAlertCount (page (scanTracker_finish c (cid, Inr found) s))
           = length (allWhales (AList.update c (filterByKeywords c cid found) (whaleData s)))"
  using assms
  by (simp_all add: scanTracker_finish_def Let_def updateWhaleAlertFeed_alerts)

lemma ev_simps [simp]: "whaleScore (ev sc ts) = sc" "whale_event.timestamp (ev sc ts) = ts"
  "market (ev sc ts) = ''Will BTC hit 100k?''"
  by (simp_all add: ev_def demo_event_fields)

text \<open>The pool is the events of all entries, each with its entry's key as category.\<close>

lemma mset_allWhales: "mset (allWhales wd) = pooled wd"
  by (induction wd) (auto simp: allWhales_def pooled_def)

lemma length_allWhales: "length (allWhales wd) = size (pooled wd)"
  using mset_allWhales[of wd] by (metis size_mset)

lemma update_fresh: "map_of al k = None \<Longrightarrow> AList.update k v al = al @ [(k, v)]"
  by (induction al) (auto split: if_splits)

lemma pooled_append: "pooled (xs @ ys) = pooled xs + pooled ys"
  by (simp add: pooled_def)

lemma pooled_update_deleted:
  "pooled (AList.update k ws (AList.delete k wd))
     = pooled (AList.delete k wd) + image_mset (\<lambda>e. e\<lparr>category := k\<rparr>) (mset ws)"
  by (simp add: update_fresh delete_conv' pooled_append) (simp add: pooled_def)

lemma activePool_all:
  "list_all (\<lambda>(c, ws). has (monitors s) c) (whaleData s) \<Longrightarrow> activePool s = allWhales (whaleData s)"
  by (simp add: activePool_def list_all_iff filter_id_conv case_prod_beta)

lemma upt_values:
  "[0..<12] = [0, 1, 2, 3, 4, 5, 6, 7, 8, 9, 10, 11]" "[0..<10] = [0, 1, 2, 3, 4, 5, 6, 7, 8, 9]"
  by code_simp+

lemma crypto_events_keywords: "filterByKeywords ''crypto'' IdNull crypto_events = crypto_events"
  by (rule crypto_keywords) (simp add: crypto_events_def upt_values)

lemma sports_events_keywords: "filterByKeywords ''sports'' IdNull sports_events = sports_events"
proof -
  have "filter (\<lambda>whale. list_ex (\<lambda>keyword. str_includes (toLowerCase (market whale))
            (toLowerCase keyword))
     [''nfl'', ''nba'', ''mlb'', ''nhl'', ''soccer'', ''football'', ''basketball'',
      ''baseball'', ''hockey'', ''championship'', ''super bowl'', ''world cup'',
      ''olympics'', ''team'', ''player'', ''game'']) found = found"
    if "list_all (\<lambda>e. market e = ''NBA finals: game 7'') found" for found :: "whale_event list"
    using that market_keywords(2) by (induction found) simp_all
  moreover have "list_all (\<lambda>e. market e = ''NBA finals: game 7'') sports_events"
    by (simp add: sports_events_def upt_values)
  ultimately show ?thesis
    by (simp add: filterByKeywords_def CATEGORY_KEYWORDS_def keywordFilter_def)
qed

lemma two_trackers_fields:
  "whaleData two_trackers = [(''sports'', sports_events)]"
  "monitors two_trackers = [(''sports'', 1), (''crypto'', 2)]"
  "present (page two_trackers) = (\<lambda>e. True)"
  by (simp_all add: two_trackers_def tracker0_eval demo_page_def)

lemma two_trackers_sorted:
  "map (\<lambda>e. (category e, whaleScore e, whale_event.timestamp e))
     (sort_cmp byScoreThenTime
        (allWhales [(''sports'', sports_events), (''crypto'', crypto_events)]))
   = [(''crypto'', 74, 109), (''crypto'', 73, 108), (''crypto'', 72, 107), (''crypto'', 71, 106),
      (''sports'', 71, 11), (''crypto'', 70, 105), (''sports'', 70, 10), (''crypto'', 69, 104),
      (''sports'', 69, 9), (''crypto'', 68, 103), (''sports'', 68, 8), (''crypto'', 67, 102),
      (''sports'', 67, 7), (''crypto'', 66, 101), (''sports'', 66, 6), (''crypto'', 65, 100),
      (''sports'', 65, 5), (''sports'', 64, 4), (''sports'', 63, 3), (''sports'', 62, 2),
      (''sports'', 61, 1), (''sports'', 60, 0)]"
  by (simp add: allWhales_def sort_cmp_def byScoreThenTime_def sports_events_def
      crypto_events_def ev_def upt_values)

text \<open>
  Claim C7, as amended. On a page that has the alert panel and its counter, after a scan
  has applied its results the alert feed is the first 20 entries of the sorted pool. The
  pool holds, for every entry of \<open>whaleData\<close>, the entry's events, each with the entry's
  key as category; the sorted pool is a permutation of it in which a higher score comes
  first and, of equal scores, the later timestamp. The counter shows the size of the whole
  pool. \<open>whaleData\<close> is what it was, with the events of this scan as the entry of the
  scanned category. The pool is not filtered by \<open>monitors\<close>: it is the pool of the running
  categories when every entry of \<open>whaleData\<close> belongs to a running category.
\<close>

theorem alert_feed_sorted_pool:
  assumes "present (page s) WhaleAlertsContainer" and "present (page s) WhaleAlertCount"
  shows "whaleAlerts (page (scanTracker_finish cat (cid, Inr found) s))
           = take 20 (sort_cmp byScoreThenTime
               (allWhales (whaleData (scanTracker_finish cat (cid, Inr found) s))))
     \<and> mset (sort_cmp byScoreThenTime
               (allWhales (whaleData (scanTracker_finish cat (cid, Inr found) s))))
           = pooled (whaleData (scanTracker_finish cat (cid, Inr found) s))
     \<and> sorted_wrt feed_order (sort_cmp byScoreThenTime
               (allWhales (whaleData (scanTracker_finish cat (cid, Inr found) s))))
     \<and> length (whaleAlerts (page (scanTracker_finish cat (cid, Inr found) s)))
           = min 20 (size (pooled (whaleData (scanTracker_finish cat (cid, Inr found) s))))
     \<and> whaleAlertCount (page (scanTracker_finish cat (cid, Inr found) s))
           = size (pooled (whaleData (scanTracker_finish cat (cid, Inr found) s)))
     \<and> whaleData (scanTracker_finish cat (cid, Inr found) s)
           = AList.update cat (filterByKeywords cat cid found) (whaleData s)
     \<and> (list_all (\<lambda>(c, ws). has (monitors (scanTracker_finish cat (cid, Inr found) s)) c)
            (whaleData (scanTracker_finish cat (cid, Inr found) s)) \<longrightarrow>
          whaleAlerts (page (scanTracker_finish cat (cid, Inr found) s))
            = take 20 (sort_cmp byScoreThenTime
                (activePool (scanTracker_finish cat (cid, Inr found) s))))"
proof -
  let ?s' = "scanTracker_finish cat (cid, Inr found) s"
  have wd: "whaleData ?s' = AList.update cat (filterByKeywords cat cid found) (whaleData s)"
    by (rule scanTracker_finish_whaleData)
  have a: "whaleAlerts (page ?s') = take 20 (sort_cmp byScoreThenTime (allWhales (whaleData ?s')))"
    using scanTracker_finish_alerts(1)[OF assms, of cat cid found] by (simp only: wd)
  have b: "mset (sort_cmp byScoreThenTime (allWhales (whaleData ?s'))) = pooled (whaleData ?s')"
    by (simp only: mset_sort_cmp mset_allWhales)
  have c: "sorted_wrt feed_order (sort_cmp byScoreThenTime (allWhales (whaleData ?s')))"
    by (rule sorted_sort_feed)
  have len: "length (sort_cmp byScoreThenTime (allWhales (whaleData ?s')))
      = size (pooled (whaleData ?s'))"
    using b by (metis size_mset)
  have d: "length (whaleAlerts (page ?s')) = min 20 (size (pooled (whaleData ?s')))"
    unfolding a by (simp add: len min.commute)
  have e: "whaleAlertCount (page ?s') = size (pooled (whaleData ?s'))"
    using scanTracker_finish_alerts(2)[OF assms, of cat cid found]
    by (simp only: wd length_allWhales)
  have f: "list_all (\<lambda>(c, ws). has (monitors ?s') c) (whaleData ?s') \<longrightarrow>
      whaleAlerts (page ?s') = take 20 (sort_cmp byScoreThenTime (activePool ?s'))"
  proof
    assume "list_all (\<lambda>(c, ws). has (monitors ?s') c) (whaleData ?s')"
    then have "activePool ?s' = allWhales (whaleData ?s')" by (rule activePool_all)
    with a show "whaleAlerts (page ?s') = take 20 (sort_cmp byScoreThenTime (activePool ?s'))"
      by simp
  qed
  from a b c d e wd f show ?thesis by blast
qed

theorem alert_feed_sorted_pool_witness:
  "present (page two_trackers) WhaleAlertsContainer
   \<and> present (page two_trackers) WhaleAlertCount
   \<and> whaleData two_trackers = [(''sports'', sports_events)]
   \<and> length sports_events = 12 \<and> length crypto_events = 10
   \<and> whaleData (scanTracker_finish ''crypto'' (IdNull, Inr crypto_events) two_trackers)
        = [(''sports'', sports_events), (''crypto'', crypto_events)]
   \<and> list_all (\<lambda>(c, ws). has (monitors
          (scanTracker_finish ''crypto'' (IdNull, Inr crypto_events) two_trackers)) c)
        (whaleData (scanTracker_finish ''crypto'' (IdNull, Inr crypto_events) two_trackers))
   \<and> map (\<lambda>e. (category e, whaleScore e, whale_event.timestamp e))
        (whaleAlerts (page (scanTracker_finish ''crypto'' (IdNull, Inr crypto_events)
           two_trackers)))
      = [(''crypto'', 74, 109), (''crypto'', 73, 108), (''crypto'', 72, 107), (''crypto'', 71, 106),
         (''sports'', 71, 11), (''crypto'', 70, 105), (''sports'', 70, 10), (''crypto'', 69, 104),
         (''sports'', 69, 9), (''crypto'', 68, 103), (''sports'', 68, 8), (''crypto'', 67, 102),
         (''sports'', 67, 7), (''crypto'', 66, 101), (''sports'', 66, 6), (''crypto'', 65, 100),
         (''sports'', 65, 5), (''sports'', 64, 4), (''sports'', 63, 3), (''sports'', 62, 2)]
   \<and> whaleAlertCount (page (scanTracker_finish ''crypto'' (IdNull, Inr crypto_events)
        two_trackers)) = 22"
proof -
  let ?s' = "scanTracker_finish ''crypto'' (IdNull, Inr crypto_events) two_trackers"
  have p: "present (page two_trackers) WhaleAlertsContainer"
    "present (page two_trackers) WhaleAlertCount"
    by (simp_all add: two_trackers_fields)
  have l: "length sports_events = 12" "length crypto_events = 10"
    by (simp_all add: sports_events_def crypto_events_def)
  note t = alert_feed_sorted_pool[OF p, of "''crypto''" IdNull crypto_events]
  have wd: "whaleData ?s' = [(''sports'', sports_events), (''crypto'', crypto_events)]"
    using t by (simp add: two_trackers_fields crypto_events_keywords)
  have m: "list_all (\<lambda>(c, ws). has (monitors ?s') c) (whaleData ?s')"
    by (simp add: wd two_trackers_fields has_def)
  have feed: "whaleAlerts (page ?s') = take 20 (sort_cmp byScoreThenTime
      (allWhales [(''sports'', sports_events), (''crypto'', crypto_events)]))"
    using t by (simp only: wd)
  have "map (\<lambda>e. (category e, whaleScore e, whale_event.timestamp e)) (whaleAlerts (page ?s'))
      = take 20 (map (\<lambda>e. (category e, whaleScore e, whale_event.timestamp e))
          (sort_cmp byScoreThenTime
            (allWhales [(''sports'', sports_events), (''crypto'', crypto_events)])))"
    by (simp only: feed take_map)
  then have f: "map (\<lambda>e. (category e, whaleScore e, whale_event.timestamp e))
        (whaleAlerts (page ?s'))
      = [(''crypto'', 74, 109), (''crypto'', 73, 108), (''crypto'', 72, 107), (''crypto'', 71, 106),
         (''sports'', 71, 11), (''crypto'', 70, 105), (''sports'', 70, 10), (''crypto'', 69, 104),
         (''sports'', 69, 9), (''crypto'', 68, 103), (''sports'', 68, 8), (''crypto'', 67, 102),
         (''sports'', 67, 7), (''crypto'', 66, 101), (''sports'', 66, 6), (''crypto'', 65, 100),
         (''sports'', 65, 5), (''sports'', 64, 4), (''sports'', 63, 3), (''sports'', 62, 2)]"
    by (simp only: two_trackers_sorted) simp
  have "size (pooled (whaleData ?s')) = 22"
    by (simp add: wd pooled_def l)
  with t have n: "whaleAlertCount (page ?s') = 22" by simp
  from p two_trackers_fields(1) l wd m f n show ?thesis by blast
qed

text \<open>
  Claim C7 as stated fails on the example run: after the scan of \<open>crypto\<close> that returns
  when the category has been stopped, no category is running and the pool of the
  running categories is empty, but the feed shows the event of \<open>crypto\<close>.
\<close>

theorem feed_of_stopped_category_counterexample:
  "monitors landed = []
   \<and> activePool landed = []
   \<and> take 20 (sort_cmp byScoreThenTime (activePool landed)) = []
   \<and> whaleAlerts (page landed) = [demo_event\<lparr>category := ''crypto''\<rparr>]"
proof -
  have mon: "monitors landed = []"
    by (simp add: landed_eq stopped_def stopTracker_def inflight_fields Let_def)
  have wd: "whaleData landed = [(''crypto'', [demo_event])]"
    by (simp add: landed_eq scanTracker_finish_whaleData demo_keywords stopped_def
        stopTracker_def inflight_fields Let_def)
  have ap: "activePool landed = []"
    by (simp add: activePool_def wd mon has_def allWhales_def)
  have p: "present (page stopped) WhaleAlertsContainer" "present (page stopped) WhaleAlertCount"
    by (simp_all add: stopped_def inflight_fields)
  have "whaleAlerts (page landed)
      = take 20 (sort_cmp byScoreThenTime (allWhales (whaleData landed)))"
    using scanTracker_finish_alerts(1)[OF p, of "''crypto''" IdNull "[demo_event]"]
    by (simp only: landed_eq scanTracker_finish_whaleData)
  then have "whaleAlerts (page landed) = [demo_event\<lparr>category := ''crypto''\<rparr>]"
    by (simp add: wd allWhales_def sort_cmp_def)
  with mon ap show ?thesis by (simp add: sort_cmp_def)
qed

section \<open>A stop while a scan is under way\<close>

lemma demo_stats:
  "calculateStats [demo_event] = \<lparr> count = 1, avgScore = 90, volume = 500000 \<rparr>"
  "round (fdiv 500000 1000) = 500"
  by (simp_all add: calculateStats_def demo_event_fields round_def fl_eval split del: if_split)

text \<open>
  Claim C4, as amended. For a running category, \<open>stopTracker\<close> ends the timer that
  \<open>monitors\<close> records for it, so that this timer starts no further scan, removes the
  category from \<open>monitors\<close>, deletes its whale data and sets its three displayed numbers
  back. It does not discard a scan that is under way: the second part of \<open>scanTracker\<close>
  does not read \<open>monitors\<close> (with any other \<open>monitors\<close> it does the same), so when the scan
  returns after the stop its events, filtered by the keywords, become the category's whale
  data again, the count, the average score and the volume shown are those of these events,
  and the feed is recomputed from the pool of the other categories' events and these,
  while the category stays out of \<open>monitors\<close> and its timer stays ended.
\<close>

theorem inflight_scan_applies_after_stop:
  assumes "map_of (monitors s) cat = Some intervalId"
  shows "map_of (intervals (stopTracker nowSave cat s)) intervalId = None
   \<and> intervalFires w now intervalId (stopTracker nowSave cat s) = stopTracker nowSave cat s
   \<and> \<not> has (monitors (stopTracker nowSave cat s)) cat
   \<and> map_of (whaleData (stopTracker nowSave cat s)) cat = None
   \<and> (present (page s) (StatCount cat) \<longrightarrow>
        countText (page (stopTracker nowSave cat s)) cat = Some 0)
   \<and> (present (page s) (StatScore cat) \<longrightarrow>
        scoreText (page (stopTracker nowSave cat s)) cat = Some None)
   \<and> (present (page s) (StatVolume cat) \<longrightarrow>
        volumeText (page (stopTracker nowSave cat s)) cat = Some None)
   \<and> (\<forall>m. scanTracker_finish cat (cid, Inr found) ((stopTracker nowSave cat s)\<lparr>monitors := m\<rparr>)
          = (scanTracker_finish cat (cid, Inr found) (stopTracker nowSave cat s))\<lparr>monitors := m\<rparr>)
   \<and> \<not> has (monitors (scanTracker_finish cat (cid, Inr found) (stopTracker nowSave cat s))) cat
   \<and> map_of (intervals (scanTracker_finish cat (cid, Inr found) (stopTracker nowSave cat s)))
        intervalId = None
   \<and> map_of (whaleData (scanTracker_finish cat (cid, Inr found) (stopTracker nowSave cat s))) cat
        = Some (filterByKeywords cat cid found)
   \<and> (present (page s) (StatCount cat) \<longrightarrow>
        countText (page (scanTracker_finish cat (cid, Inr found) (stopTracker nowSave cat s))) cat
          = Some (length (filterByKeywords cat cid found)))
   \<and> (present (page s) (StatScore cat) \<longrightarrow>
        scoreText (page (scanTracker_finish cat (cid, Inr found) (stopTracker nowSave cat s))) cat
          = Some (if avgScore (calculateStats (filterByKeywords cat cid found)) = 0 then None
                  else Some (avgScore (calculateStats (filterByKeywords cat cid found)))))
   \<and> (present (page s) (StatVolume cat) \<longrightarrow>
        volumeText (page (scanTracker_finish cat (cid, Inr found) (stopTracker nowSave cat s))) cat
          = Some (if volume (calculateStats (filterByKeywords cat cid found)) > 0
                  then Some (round (fdiv (volume (calculateStats
                          (filterByKeywords cat cid found))) 1000))
                  else None))
   \<and> (present (page s) WhaleAlertsContainer \<and> present (page s) WhaleAlertCount \<longrightarrow>
        whaleAlerts (page (scanTracker_finish cat (cid, Inr found) (stopTracker nowSave cat s)))
          = take 20 (sort_cmp byScoreThenTime (allWhales
              (whaleData (scanTracker_finish cat (cid, Inr found) (stopTracker nowSave cat s)))))
        \<and> mset (allWhales
              (whaleData (scanTracker_finish cat (cid, Inr found) (stopTracker nowSave cat s))))
          = pooled (AList.delete cat (whaleData s))
            + image_mset (\<lambda>e. e\<lparr>category := cat\<rparr>) (mset (filterByKeywords cat cid found)))"
proof -
  let ?t = "stopTracker nowSave cat s"
  let ?u = "scanTracker_finish cat (cid, Inr found) ?t"
  from assms have h: "has (monitors s) cat" by (simp add: has_def)
  have t1: "map_of (intervals ?t) intervalId = None"
    using assms by (rule stopTracker_timer)
  then have t2: "intervalFires w now intervalId ?t = ?t"
    by (simp add: intervalFires_def)
  have t3: "\<not> has (monitors ?t) cat" by (rule stopTracker_stopped)
  have t4: "map_of (whaleData ?t) cat = None" using h by (rule stopTracker_whaleData)
  have t5: "present (page s) (StatCount cat) \<longrightarrow> countText (page ?t) cat = Some 0"
    "present (page s) (StatScore cat) \<longrightarrow> scoreText (page ?t) cat = Some None"
    "present (page s) (StatVolume cat) \<longrightarrow> volumeText (page ?t) cat = Some None"
    using h by (simp_all add: stopTracker_count)
  have m: "\<forall>m. scanTracker_finish cat (cid, Inr found) (?t\<lparr>monitors := m\<rparr>) = ?u\<lparr>monitors := m\<rparr>"
    by (simp only: scanTracker_finish_monitors) simp
  have a: "\<not> has (monitors ?u) cat"
    by (simp add: stopTracker_stopped)
  have a': "map_of (intervals ?u) intervalId = None"
    using t1 by simp
  have b: "map_of (whaleData ?u) cat = Some (filterByKeywords cat cid found)"
    by (simp add: scanTracker_finish_whaleData update_conv')
  have c: "present (page s) (StatCount cat) \<longrightarrow>
        countText (page ?u) cat = Some (length (filterByKeywords cat cid found))"
    by (simp add: scanTracker_finish_count)
  have c2: "present (page s) (StatScore cat) \<longrightarrow>
        scoreText (page ?u) cat
          = Some (if avgScore (calculateStats (filterByKeywords cat cid found)) = 0 then None
                  else Some (avgScore (calculateStats (filterByKeywords cat cid found))))"
    by (simp add: scanTracker_finish_score)
  have c3: "present (page s) (StatVolume cat) \<longrightarrow>
        volumeText (page ?u) cat
          = Some (if volume (calculateStats (filterByKeywords cat cid found)) > 0
                  then Some (round (fdiv (volume (calculateStats
                          (filterByKeywords cat cid found))) 1000))
                  else None)"
    by (simp add: scanTracker_finish_volume)
  have wdt: "whaleData ?t = AList.delete cat (whaleData s)"
    using assms by (simp add: stopTracker_def Let_def)
  have d: "present (page s) WhaleAlertsContainer \<and> present (page s) WhaleAlertCount \<longrightarrow>
        whaleAlerts (page ?u) = take 20 (sort_cmp byScoreThenTime (allWhales (whaleData ?u)))"
    using scanTracker_finish_alerts(1)[of ?t cat cid found]
    by (simp add: scanTracker_finish_whaleData)
  have e: "mset (allWhales (whaleData ?u))
          = pooled (AList.delete cat (whaleData s))
            + image_mset (\<lambda>e. e\<lparr>category := cat\<rparr>) (mset (filterByKeywords cat cid found))"
    by (simp only: mset_allWhales scanTracker_finish_whaleData wdt pooled_update_deleted)
  from t1 t2 t3 t4 t5 m a a' b c c2 c3 d e show ?thesis by blast
qed

theorem inflight_scan_applies_after_stop_witness:
  "map_of (monitors (snd inflight)) ''crypto'' = Some 1
   \<and> intervals (snd inflight) = [(1, ''crypto'')]
   \<and> present (page (snd inflight)) (StatCount ''crypto'')
   \<and> present (page (snd inflight)) (StatScore ''crypto'')
   \<and> present (page (snd inflight)) (StatVolume ''crypto'')
   \<and> present (page (snd inflight)) WhaleAlertsContainer
   \<and> present (page (snd inflight)) WhaleAlertCount
   \<and> map_of (intervals stopped) 1 = None
   \<and> countText (page stopped) ''crypto'' = Some 0
   \<and> scoreText (page stopped) ''crypto'' = Some None
   \<and> volumeText (page stopped) ''crypto'' = Some None
   \<and> \<not> has (monitors landed) ''crypto''
   \<and> map_of (intervals landed) 1 = None
   \<and> map_of (whaleData landed) ''crypto'' = Some [demo_event]
   \<and> countText (page landed) ''crypto'' = Some 1
   \<and> scoreText (page landed) ''crypto'' = Some (Some 90)
   \<and> volumeText (page landed) ''crypto'' = Some (Some 500)
   \<and> whaleAlerts (page landed) = [demo_event\<lparr>category := ''crypto''\<rparr>]"
proof -
  have wd: "whaleData landed = [(''crypto'', [demo_event])]"
    by (simp add: landed_eq scanTracker_finish_whaleData demo_keywords stopped_def
        stopTracker_def inflight_fields Let_def)
  have h: "map_of (monitors (snd inflight)) ''crypto'' = Some 1"
    by (simp add: inflight_fields)
  from inflight_scan_applies_after_stop[OF h, of 1700000032000 demo_world 1700000061000
      IdNull "[demo_event]"]
  show ?thesis
    by (simp add: landed_eq[symmetric] stopped_def[symmetric] inflight_fields demo_keywords wd
        allWhales_def sort_cmp_def demo_stats)
qed

text \<open>
  Claim C4 as stated fails on the example run: the category is running, its scan is under
  way, the stop clears its whale data and its counter, and the scan that returns then sets
  both again and puts its event into the feed.
\<close>

theorem stop_during_scan_counterexample:
  "has (monitors running) ''crypto''
   \<and> fst inflight = Some (IdNull, Inr [demo_event])
   \<and> stopped = stopTracker 1700000032000 ''crypto'' (snd inflight)
   \<and> \<not> has (monitors stopped) ''crypto''
   \<and> map_of (whaleData stopped) ''crypto'' = None
   \<and> countText (page stopped) ''crypto'' = Some 0
   \<and> landed = scanTracker_finish ''crypto'' (IdNull, Inr [demo_event]) stopped
   \<and> \<not> has (monitors landed) ''crypto''
   \<and> map_of (whaleData landed) ''crypto'' = Some [demo_event]
   \<and> countText (page landed) ''crypto'' = Some 1
   \<and> whaleAlerts (page landed) = [demo_event\<lparr>category := ''crypto''\<rparr>]"
proof -
  have h: "has (monitors (snd inflight)) ''crypto''"
    by (simp add: inflight_fields has_def)
  have p: "present (page (snd inflight)) (StatCount ''crypto'')"
    "present (page stopped) (StatCount ''crypto'')"
    "present (page stopped) WhaleAlertsContainer" "present (page stopped) WhaleAlertCount"
    by (simp_all add: inflight_fields stopped_def)
  have 1: "has (monitors running) ''crypto''"
    by (simp add: running_fields has_def)
  have 2: "\<not> has (monitors stopped) ''crypto''"
    by (simp add: stopped_def stopTracker_stopped)
  have 3: "map_of (whaleData stopped) ''crypto'' = None"
    using h by (simp add: stopped_def stopTracker_whaleData)
  have 4: "countText (page stopped) ''crypto'' = Some 0"
    using h p by (simp add: stopped_def stopTracker_count)
  have 5: "\<not> has (monitors landed) ''crypto''"
    using 2 by (simp add: landed_eq)
  have 6: "map_of (whaleData landed) ''crypto'' = Some [demo_event]"
    by (simp add: landed_eq scanTracker_finish_whaleData update_conv' demo_keywords)
  have 7: "countText (page landed) ''crypto'' = Some 1"
    using p by (simp add: landed_eq scanTracker_finish_count demo_keywords)
  have wd: "whaleData landed = [(''crypto'', [demo_event])]"
    by (simp add: landed_eq scanTracker_finish_whaleData demo_keywords stopped_def
        stopTracker_def inflight_fields Let_def)
  have "whaleAlerts (page landed)
      = take 20 (sort_cmp byScoreThenTime (allWhales (whaleData landed)))"
    using scanTracker_finish_alerts(1)[OF p(3,4), of "''crypto''" IdNull "[demo_event]"]
    by (simp only: landed_eq scanTracker_finish_whaleData)
  then have 8: "whaleAlerts (page landed) = [demo_event\<lparr>category := ''crypto''\<rparr>]"
    by (simp add: wd allWhales_def sort_cmp_def)
  from 1 2 3 4 5 6 7 8 inflight_eval landed_eq show ?thesis
    by (simp add: stopped_def)
qed

section \<open>The persisted state\<close>

text \<open>
  The minimum score is 75 in the constructor and is assigned in \<open>loadState\<close> only, which
  never assigns 0: in every state that the code produces it is not 0.
\<close>

lemma loadState_minScore:
  "tracker.minScore s \<noteq> 0 \<Longrightarrow> tracker.minScore (loadState s) \<noteq> 0"
  by (simp add: loadState_def split: stored_item.splits option.splits)

lemma reachable_minScore_nonzero: "reachable s \<Longrightarrow> tracker.minScore s \<noteq> 0"
  by (induction rule: reachable.induct) (simp_all add: constructor_def loadState_minScore)

lemma reachable_running: "reachable running"
  unfolding running_def tracker0_def by (intro reachable.started reachable.constructed)

text \<open>
  Claim C5. In every state that the code produces, \<open>saveState\<close> followed by \<open>loadState\<close>
  gives the same minimum score and the same auto-trade flag. With a working
  \<^verbatim>\<open>localStorage\<close> the active categories it gives are the keys of \<open>monitors\<close>, in their
  order, and the constructor of a new tracker object that finds the saved item gives the
  same three; without \<^verbatim>\<open>localStorage\<close> nothing is saved and the state stays as it is.
\<close>

theorem saveState_loadState_roundtrip:
  assumes "reachable s"
  shows "tracker.minScore (loadState (saveState now s)) = tracker.minScore s
     \<and> tracker.autoTrade (loadState (saveState now s)) = tracker.autoTrade s
     \<and> (storageAvailable s \<longrightarrow>
          tracker.activeCategories (loadState (saveState now s)) = Some (map fst (monitors s))
          \<and> map_option set (tracker.activeCategories (loadState (saveState now s)))
               = Some (fst ` set (monitors s))
          \<and> tracker.minScore (constructor a True (localStorage (saveState now s)) pg)
               = tracker.minScore s
          \<and> tracker.autoTrade (constructor a True (localStorage (saveState now s)) pg)
               = tracker.autoTrade s
          \<and> map_option set (tracker.activeCategories
                 (constructor a True (localStorage (saveState now s)) pg))
               = Some (fst ` set (monitors s)))
     \<and> (\<not> storageAvailable s \<longrightarrow> loadState (saveState now s) = s)"
  using reachable_minScore_nonzero[OF assms]
  by (simp add: saveState_def loadState_def constructor_def)

theorem saveState_loadState_roundtrip_witness:
  "reachable running \<and> storageAvailable running \<and> tracker.minScore running = 75
   \<and> monitors running = [(''crypto'', 1)]
   \<and> tracker.minScore (loadState (saveState 1700000040000 running)) = 75
   \<and> tracker.autoTrade (loadState (saveState 1700000040000 running)) = tracker.autoTrade running
   \<and> tracker.activeCategories (loadState (saveState 1700000040000 running)) = Some [''crypto'']
   \<and> map_option set (tracker.activeCategories
         (constructor None True (localStorage (saveState 1700000040000 running)) demo_page))
        = Some {''crypto''}"
proof -
  from saveState_loadState_roundtrip[OF reachable_running, of 1700000040000 None demo_page]
    reachable_running
  show ?thesis by (simp add: running_fields)
qed

end
